theory Spec2Isabelle
  imports Complex_Main "HOL-Library.Signed_Division"
begin

section \<open>Numbers and vectors\<close>

text \<open>
  Every numeric value of \<^verbatim>\<open>App.tsx\<close> is a JavaScript number. A number is modelled as
  a finite real or as NaN. Addition, subtraction and multiplication give NaN as soon as an
  operand is NaN, and every comparison with NaN is false, as in IEEE 754. Rounding and the
  two infinities are not modelled: on finite operands the operations are the exact ones,
  so a value of the program and its value here can differ in the last digits, and a
  comparison of two values that close can come out differently. For that reason the
  theorems on the damping of the momentum and on the blend toward a target give no closed
  form and no rate: they compare the values before and after a frame.
\<close>

datatype number = Fin real | NaN

instantiation number :: "{plus, minus, times}"
begin

definition plus_number :: "number \<Rightarrow> number \<Rightarrow> number" where
  "plus_number a b = (case a of NaN \<Rightarrow> NaN | Fin x \<Rightarrow> (case b of NaN \<Rightarrow> NaN | Fin y \<Rightarrow> Fin (x + y)))"

definition minus_number :: "number \<Rightarrow> number \<Rightarrow> number" where
  "minus_number a b = (case a of NaN \<Rightarrow> NaN | Fin x \<Rightarrow> (case b of NaN \<Rightarrow> NaN | Fin y \<Rightarrow> Fin (x - y)))"

definition times_number :: "number \<Rightarrow> number \<Rightarrow> number" where
  "times_number a b = (case a of NaN \<Rightarrow> NaN | Fin x \<Rightarrow> (case b of NaN \<Rightarrow> NaN | Fin y \<Rightarrow> Fin (x * y)))"

instance ..

end

text \<open>The comparison \<^verbatim>\<open>a < b\<close> of two numbers.\<close>

definition lt :: "number \<Rightarrow> number \<Rightarrow> bool" where
  "lt a b = (case a of NaN \<Rightarrow> False | Fin x \<Rightarrow> (case b of NaN \<Rightarrow> False | Fin y \<Rightarrow> x < y))"

text \<open>\<^verbatim>\<open>Math.sin\<close>, \<^verbatim>\<open>Math.cos\<close> and the two-argument \<^verbatim>\<open>Math.hypot\<close>.\<close>

definition Math_sin :: "number \<Rightarrow> number" where
  "Math_sin a = (case a of NaN \<Rightarrow> NaN | Fin x \<Rightarrow> Fin (sin x))"

definition Math_cos :: "number \<Rightarrow> number" where
  "Math_cos a = (case a of NaN \<Rightarrow> NaN | Fin x \<Rightarrow> Fin (cos x))"

definition Math_hypot :: "number \<Rightarrow> number \<Rightarrow> number" where
  "Math_hypot a b =
     (case a of NaN \<Rightarrow> NaN | Fin x \<Rightarrow> (case b of NaN \<Rightarrow> NaN | Fin y \<Rightarrow> Fin (sqrt (x\<^sup>2 + y\<^sup>2))))"

text \<open>The objects \<^verbatim>\<open>{ x, y }\<close> (\<^verbatim>\<open>HandPosition\<close>, the angular velocity, \<^verbatim>\<open>rotSpeed\<close>).\<close>

record XY =
  x_of :: number
  y_of :: number

text \<open>\<^verbatim>\<open>THREE.Vector3\<close> with its method \<^verbatim>\<open>lerp(v, alpha)\<close>, which is
  \<^verbatim>\<open>this.x += (v.x - this.x) * alpha\<close> on each of the three components.\<close>

record Vector3 =
  vx :: number
  vy :: number
  vz :: number

definition lerp :: "Vector3 \<Rightarrow> Vector3 \<Rightarrow> number \<Rightarrow> Vector3" where
  "lerp this v alpha =
     \<lparr> vx = vx this + (vx v - vx this) * alpha,
       vy = vy this + (vy v - vy this) * alpha,
       vz = vz this + (vz v - vz this) * alpha \<rparr>"

section \<open>The data of \<^verbatim>\<open>types.ts\<close> and the refs of \<^verbatim>\<open>App\<close>\<close>

datatype AppState = TREE | SCATTER | ZOOM

record InstanceData =
  treePos :: Vector3
  scatterPos :: Vector3
  currentPos :: Vector3
  scale :: number
  velocity :: Vector3
  rotSpeed :: XY

record DustData =
  dust_currentPos :: Vector3
  baseY :: number
  speed :: number

text \<open>
  The star: a mesh with \<^verbatim>\<open>userData = { treePos, scatterPos }\<close>, a position and the yaw
  that the frame loop advances.
\<close>

record Star =
  star_treePos :: Vector3
  star_scatterPos :: Vector3
  star_position :: Vector3
  star_rotation_y :: number

record LogicData =
  gold :: "InstanceData list"
  silver :: "InstanceData list"
  gem :: "InstanceData list"
  emerald :: "InstanceData list"
  dust :: "DustData list"
  star :: "Star option"

text \<open>
  A photo mesh. The fields of \<^verbatim>\<open>userData\<close> are optional, because the frame loop tests the
  target position it reads from them (\<^verbatim>\<open>if (!targetPos)\<close>); \<^verbatim>\<open>addPhoto\<close> always sets
  them. Of the plane geometry the width and the height are kept. The orientation that
  \<^verbatim>\<open>lookAt\<close> gives a photo is not part of the model.
\<close>

record Photo =
  photo_treePos :: "Vector3 option"
  photo_scatterPos :: "Vector3 option"
  baseRot_y :: number
  photo_position :: Vector3
  photo_scale :: Vector3
  plane_w :: number
  plane_h :: number

text \<open>
  What \<^verbatim>\<open>dummy.updateMatrix()\<close> composes and \<^verbatim>\<open>setMatrixAt\<close> stores for one instance:
  the position, the two rotation angles (the third is 0) and the uniform scale.
\<close>

record Matrix =
  m_position :: Vector3
  m_rotation :: XY
  m_scale :: number

text \<open>A child of the main group is an instanced mesh with its instance matrices, or
  another object (the star, the dust system, a photo).\<close>

datatype Child = InstancedMesh "Matrix list" | Object3D

record Group =
  rotation :: XY
  children :: "Child list"

text \<open>
  The state of the component: the React state (\<^verbatim>\<open>currentState\<close>, the status text and
  colour, \<^verbatim>\<open>photoCount\<close>) and the refs. \<^verbatim>\<open>stateRef\<close> is the copy of \<^verbatim>\<open>currentState\<close>
  that the gesture handler and the frame loop read; an effect refreshes it after each
  change of \<^verbatim>\<open>currentState\<close>. The composer, the renderer and the camera are only tested
  for presence.
\<close>

record App =
  currentState :: AppState
  statusText :: string
  statusColor :: string
  photoCount :: nat
  composerRef :: bool
  rendererRef :: bool
  cameraRef :: bool
  mainGroupRef :: "Group option"
  dustSystemRef :: bool
  logicDataRef :: LogicData
  photoMeshesRef :: "Photo list"
  stateRef :: AppState
  zoomTargetIndexRef :: int
  isHandPresentRef :: bool
  handPosRef :: XY
  lastHandPosRef :: XY
  rotVelocityRef :: XY
  timeRef :: number

text \<open>The effect \<^verbatim>\<open>stateRef.current = currentState\<close>.\<close>

definition syncState :: "App \<Rightarrow> App" where
  "syncState s = s\<lparr>stateRef := currentState s\<rparr>"

section \<open>Gestures\<close>

text \<open>
  A landmark carries \<^verbatim>\<open>x\<close> and \<^verbatim>\<open>y\<close> (the depth is never read). \<^verbatim>\<open>landmarks[i]\<close>
  past the end of the array (or at a negative index) is \<^verbatim>\<open>undefined\<close>, and reading
  \<^verbatim>\<open>.x\<close> of it throws a TypeError: the result \<open>None\<close>.
\<close>

record NormalizedLandmark =
  lm_x :: number
  lm_y :: number

definition at_index :: "'a list \<Rightarrow> nat \<Rightarrow> 'a option" where
  "at_index xs i = (if i < length xs then Some (xs ! i) else None)"

definition isFingerFolded :: "NormalizedLandmark list \<Rightarrow> nat \<Rightarrow> bool option" where
  "isFingerFolded landmarks tipIdx =
     (case at_index landmarks 0 of None \<Rightarrow> None | Some root0 \<Rightarrow>
       (case at_index landmarks tipIdx of None \<Rightarrow> None | Some tip \<Rightarrow>
         (case (if 2 \<le> tipIdx then at_index landmarks (tipIdx - 2) else None) of
            None \<Rightarrow> None
          | Some mid \<Rightarrow>
             (let distTip = Math_hypot (lm_x tip - lm_x root0) (lm_y tip - lm_y root0);
                  distMid = Math_hypot (lm_x mid - lm_x root0) (lm_y mid - lm_y root0)
              in Some (lt distTip distMid)))))"

text \<open>The operator \<^verbatim>\<open>&&\<close>: the right operand is evaluated only when the left one is true.\<close>

definition and_then :: "bool option \<Rightarrow> bool option \<Rightarrow> bool option" where
  "and_then a b = (case a of None \<Rightarrow> None | Some False \<Rightarrow> Some False | Some True \<Rightarrow> b)"

text \<open>The constants \<^verbatim>\<open>isFist\<close> and \<^verbatim>\<open>isPinch\<close> of \<^verbatim>\<open>handleGesture\<close>.\<close>

definition isFist :: "NormalizedLandmark list \<Rightarrow> bool option" where
  "isFist landmarks =
     and_then (isFingerFolded landmarks 8)
       (and_then (isFingerFolded landmarks 12)
          (and_then (isFingerFolded landmarks 16) (isFingerFolded landmarks 20)))"

definition isPinch :: "NormalizedLandmark list \<Rightarrow> bool option" where
  "isPinch landmarks =
     (case at_index landmarks 8 of None \<Rightarrow> None | Some p8 \<Rightarrow>
       (case at_index landmarks 4 of None \<Rightarrow> None | Some p4 \<Rightarrow>
          Some (lt (Math_hypot (lm_x p8 - lm_x p4) (lm_y p8 - lm_y p4)) (Fin 0.05))))"

text \<open>
  \<^verbatim>\<open>selectClosestPhoto\<close>. The operator \<^verbatim>\<open>%\<close> is the remainder that takes the sign of the
  dividend, \<open>smod\<close>.
\<close>

definition selectClosestPhoto :: "App \<Rightarrow> App" where
  "selectClosestPhoto s =
     (if length (photoMeshesRef s) = 0 then s
      else if zoomTargetIndexRef s = - 1 then s\<lparr>zoomTargetIndexRef := 0\<rparr>
      else s\<lparr>zoomTargetIndexRef :=
               (zoomTargetIndexRef s + 1) smod int (length (photoMeshesRef s))\<rparr>)"

text \<open>
  \<^verbatim>\<open>handleGesture\<close>. The status texts are kept without their leading emoji.
\<close>

definition handleGesture :: "NormalizedLandmark list \<Rightarrow> App \<Rightarrow> App option" where
  "handleGesture landmarks s =
     (case at_index landmarks 9 of None \<Rightarrow> None | Some p9 \<Rightarrow>
      (let s1 = s\<lparr>handPosRef := \<lparr>x_of = lm_x p9, y_of = lm_y p9\<rparr>\<rparr> in
      (case isFist landmarks of None \<Rightarrow> None | Some fist \<Rightarrow>
      (case isPinch landmarks of None \<Rightarrow> None | Some pinch \<Rightarrow>
       (let current = stateRef s1 in
        Some (if pinch then
                (if current = SCATTER \<and> length (photoMeshesRef s1) > 0
                 then (selectClosestPhoto s1)
                        \<lparr>currentState := ZOOM,
                         statusText := ''Grabbing Photo'',
                         statusColor := ''#ffd700''\<rparr>
                 else s1)
              else if fist then
                s1\<lparr>currentState := TREE,
                   statusText := ''Aggregated Form'',
                   statusColor := ''#00ffaa''\<rparr>
              else
                (if current = TREE \<or> current = ZOOM
                 then s1\<lparr>currentState := SCATTER,
                         statusText := ''Nebula Scattered (Wave to Rotate)'',
                         statusColor := ''#ffffff'',
                         lastHandPosRef := handPosRef s1\<rparr>
                 else s1)))))))"

text \<open>
  The part of \<^verbatim>\<open>predictWebcam\<close> that follows the detection. The argument is
  \<^verbatim>\<open>result.landmarks\<close>: absent, or one landmark array per detected hand. The video
  element, the hand landmarker and the overlay canvas are taken to be present; without a
  renderer the function returns at once. Drawing the skeleton changes no state.
\<close>

definition predictWebcam :: "NormalizedLandmark list list option \<Rightarrow> App \<Rightarrow> App option" where
  "predictWebcam result_landmarks s =
     (if \<not> rendererRef s then Some s
      else case result_landmarks of
             None \<Rightarrow> Some (s\<lparr>isHandPresentRef := False\<rparr>)
           | Some [] \<Rightarrow> Some (s\<lparr>isHandPresentRef := False\<rparr>)
           | Some (marks # _) \<Rightarrow> handleGesture marks (s\<lparr>isHandPresentRef := True\<rparr>))"

section \<open>Photos\<close>

text \<open>
  \<^verbatim>\<open>addPhoto\<close>. Of the image the width and the height are read. The six calls of
  \<^verbatim>\<open>Math.random()\<close> are the argument \<open>rnd\<close>, in the order of the calls.
\<close>

record Image =
  img_width :: number
  img_height :: number

record Draws =
  r_angle :: number
  r_rad :: number
  r_y :: number
  r_sx :: number
  r_sy :: number
  r_sz :: number

text \<open>Division of two numbers. A zero divisor gives an infinity or NaN; the model has the
  one value NaN for them.\<close>

definition divide_number :: "number \<Rightarrow> number \<Rightarrow> number" where
  "divide_number a b =
     (case a of NaN \<Rightarrow> NaN | Fin x \<Rightarrow>
      (case b of NaN \<Rightarrow> NaN | Fin y \<Rightarrow> if y = 0 then NaN else Fin (x / y)))"

definition addPhoto :: "Image \<Rightarrow> Draws \<Rightarrow> App \<Rightarrow> App" where
  "addPhoto img rnd s =
     (case mainGroupRef s of None \<Rightarrow> s | Some mainGroup \<Rightarrow>
      let aspect = divide_number (img_width img) (img_height img);
          h = Fin 4;
          w = h * aspect;
          angle = r_angle rnd * Fin pi * Fin 2;
          rad = Fin 15 + r_rad rnd * Fin 10;
          y = (r_y rnd - Fin 0.5) * Fin 40;
          tp = \<lparr> vx = rad * Math_cos angle, vy = y, vz = rad * Math_sin angle \<rparr>;
          sp = \<lparr> vx = (r_sx rnd - Fin 0.5) * Fin 80,
                 vy = (r_sy rnd - Fin 0.5) * Fin 80,
                 vz = (r_sz rnd - Fin 0.5) * Fin 80 \<rparr>;
          mesh = \<lparr> photo_treePos = Some tp,
                   photo_scatterPos = Some sp,
                   baseRot_y = angle + Fin (pi / 2),
                   photo_position = tp,
                   photo_scale = \<lparr> vx = Fin 1, vy = Fin 1, vz = Fin 1 \<rparr>,
                   plane_w = w,
                   plane_h = h \<rparr>
      in s\<lparr> photoMeshesRef := photoMeshesRef s @ [mesh],
            mainGroupRef := Some (mainGroup\<lparr>children := children mainGroup @ [Object3D]\<rparr>),
            photoCount := photoCount s + 1,
            currentState := TREE \<rparr>)"

section \<open>The frame loop\<close>

text \<open>
  Step 1 of \<^verbatim>\<open>animate\<close>: the rotation of the main group and its momentum. The constant
  \<^verbatim>\<open>currentState\<close> of \<^verbatim>\<open>animate\<close> is \<^verbatim>\<open>stateRef.current\<close>, which the frame loop never
  writes.
\<close>

definition stateManagement :: "App \<Rightarrow> App" where
  "stateManagement s =
     (case mainGroupRef s of None \<Rightarrow> s | Some mainGroup \<Rightarrow>
      if stateRef s = SCATTER then
        let s1 = (if isHandPresentRef s then
                    let dx = x_of (handPosRef s) - x_of (lastHandPosRef s);
                        dy = y_of (handPosRef s) - y_of (lastHandPosRef s)
                    in s\<lparr>rotVelocityRef :=
                            \<lparr>x_of = x_of (rotVelocityRef s) + dy * Fin 0.2,
                             y_of = y_of (rotVelocityRef s) + dx * Fin 0.2\<rparr>,
                          lastHandPosRef :=
                            \<lparr>x_of = x_of (handPosRef s), y_of = y_of (handPosRef s)\<rparr>\<rparr>
                  else s);
            v = rotVelocityRef s1;
            r = rotation mainGroup
        in s1\<lparr>mainGroupRef :=
                 Some (mainGroup\<lparr>rotation := \<lparr>x_of = x_of r + x_of v, y_of = y_of r + y_of v\<rparr>\<rparr>),
               rotVelocityRef := \<lparr>x_of = x_of v * Fin 0.95, y_of = y_of v * Fin 0.95\<rparr>\<rparr>
      else if stateRef s = TREE then
        let r = rotation mainGroup
        in s\<lparr>mainGroupRef :=
                Some (mainGroup\<lparr>rotation := \<lparr>x_of = x_of r * Fin 0.95, y_of = y_of r + Fin 0.002\<rparr>\<rparr>)\<rparr>
      else s)"

text \<open>
  Step 2: what one pass of the loop of \<^verbatim>\<open>updateMeshGroup\<close> computes for the instance
  \<open>i\<close> (the updated item and the matrix stored for it), the pass as an update of the data
  array and of the instance matrices, and the loop itself. \<^verbatim>\<open>setMatrixAt\<close> past the
  instance count writes nothing, as \<open>list_update\<close> does.
\<close>

definition updateItem :: "AppState \<Rightarrow> number \<Rightarrow> nat \<Rightarrow> InstanceData \<Rightarrow> InstanceData \<times> Matrix" where
  "updateItem state time i item =
     (let target0 = (if state = TREE then treePos item else scatterPos item);
          target = (if state = ZOOM then scatterPos item else target0);
          p1 = lerp (currentPos item) target (Fin 0.06);
          p2 = (if state = SCATTER
                then p1\<lparr>vy := vy p1 + Math_sin (time + Fin (real i)) * Fin 0.02\<rparr> else p1);
          s0 = scale item;
          s = (if state = ZOOM then s0 * Fin 0.5 else s0)
      in (item\<lparr>currentPos := p2\<rparr>,
          \<lparr>m_position = p2,
           m_rotation = \<lparr>x_of = time * x_of (rotSpeed item), y_of = time * y_of (rotSpeed item)\<rparr>,
           m_scale = s\<rparr>))"

definition meshBody ::
  "AppState \<Rightarrow> number \<Rightarrow> nat \<Rightarrow> InstanceData list \<times> Matrix list \<Rightarrow> InstanceData list \<times> Matrix list" where
  "meshBody state time i dm =
     (let im = updateItem state time i (fst dm ! i)
      in ((fst dm)[i := fst im], (snd dm)[i := snd im]))"

definition updateMeshGroup ::
  "AppState \<Rightarrow> number \<Rightarrow> nat \<Rightarrow> InstanceData list \<Rightarrow> Child list \<Rightarrow> InstanceData list \<times> Child list" where
  "updateMeshGroup state time meshIndex data chs =
     (case at_index chs meshIndex of
        Some (InstancedMesh ms) \<Rightarrow>
          let r = fold (meshBody state time) [0..<length data] (data, ms)
          in (fst r, chs[meshIndex := InstancedMesh (snd r)])
      | _ \<Rightarrow> (data, chs))"

definition updateGroups :: "App \<Rightarrow> App" where
  "updateGroups s =
     (case mainGroupRef s of None \<Rightarrow> s | Some mainGroup \<Rightarrow>
      let state = stateRef s; time = timeRef s; logicData = logicDataRef s;
          g1 = updateMeshGroup state time 0 (gold logicData) (children mainGroup);
          g2 = updateMeshGroup state time 1 (silver logicData) (snd g1);
          g3 = updateMeshGroup state time 2 (gem logicData) (snd g2);
          g4 = updateMeshGroup state time 3 (emerald logicData) (snd g3)
      in s\<lparr>logicDataRef :=
              logicData\<lparr>gold := fst g1, silver := fst g2, gem := fst g3, emerald := fst g4\<rparr>,
            mainGroupRef := Some (mainGroup\<lparr>children := snd g4\<rparr>)\<rparr>)"

text \<open>Step 3: the dust. The position buffer of the point cloud is a copy of the dust
  positions and is not kept.\<close>

definition updateDustMote :: "AppState \<Rightarrow> number \<Rightarrow> nat \<Rightarrow> DustData \<Rightarrow> DustData" where
  "updateDustMote state time i p =
     (let c = dust_currentPos p in
      if state = TREE then
        let angle = time * Fin 0.2 + baseY p;
            r = Fin 35;
            x1 = vx c + (Math_cos angle * r - vx c) * Fin 0.02;
            z1 = vz c + (Math_sin angle * r - vz c) * Fin 0.02;
            y1 = vy c + Fin 0.1;
            y2 = (if lt (Fin 60) y1 then Fin (- 60) else y1)
        in p\<lparr>dust_currentPos := \<lparr>vx = x1, vy = y2, vz = z1\<rparr>\<rparr>
      else p\<lparr>dust_currentPos := c\<lparr>vy := vy c + Math_sin (time + Fin (real i)) * Fin 0.05\<rparr>\<rparr>)"

definition updateDust :: "App \<Rightarrow> App" where
  "updateDust s =
     (if dustSystemRef s then
        let logicData = logicDataRef s;
            d = fold (\<lambda>i d. d[i := updateDustMote (stateRef s) (timeRef s) i (d ! i)])
                     [0..<length (dust logicData)] (dust logicData)
        in s\<lparr>logicDataRef := logicData\<lparr>dust := d\<rparr>\<rparr>
      else s)"

text \<open>
  Step 4: the photos. The point 60 units in front of the camera, in the coordinates of the
  main group (\<^verbatim>\<open>mainGroup.worldToLocal(v)\<close>), is computed by three.js from the camera,
  which never moves, and from the rotation of the group: it is the parameter \<open>front\<close>.
\<close>

definition updatePhoto ::
  "(XY \<Rightarrow> Vector3) \<Rightarrow> AppState \<Rightarrow> int \<Rightarrow> bool \<Rightarrow> Group \<Rightarrow> nat \<Rightarrow> Photo \<Rightarrow> Photo" where
  "updatePhoto front state zoomTargetIndex camera mainGroup idx mesh =
     (let tt = (if state = ZOOM \<and> int idx = zoomTargetIndex then
                  (if camera then (Some (front (rotation mainGroup)), Fin 5)
                   else (photo_scatterPos mesh, Fin 1))
                else ((if state = TREE then photo_treePos mesh else photo_scatterPos mesh),
                      (if state \<noteq> TREE then Fin 2 else Fin 1)));
          targetPos = (case fst tt of None \<Rightarrow> \<lparr>vx = Fin 0, vy = Fin 0, vz = Fin 0\<rparr> | Some v \<Rightarrow> v);
          targetScale = snd tt
      in mesh\<lparr>photo_position := lerp (photo_position mesh) targetPos (Fin 0.1),
              photo_scale := lerp (photo_scale mesh)
                               \<lparr>vx = targetScale, vy = targetScale, vz = targetScale\<rparr> (Fin 0.1)\<rparr>)"

definition updatePhotos :: "(XY \<Rightarrow> Vector3) \<Rightarrow> App \<Rightarrow> App" where
  "updatePhotos front s =
     (case mainGroupRef s of None \<Rightarrow> s | Some mainGroup \<Rightarrow>
      s\<lparr>photoMeshesRef :=
          map (\<lambda>(idx, mesh). updatePhoto front (stateRef s) (zoomTargetIndexRef s) (cameraRef s)
                                mainGroup idx mesh)
              (enumerate 0 (photoMeshesRef s))\<rparr>)"

text \<open>Step 5: the star.\<close>

definition updateStar :: "App \<Rightarrow> App" where
  "updateStar s =
     (case star (logicDataRef s) of None \<Rightarrow> s | Some st \<Rightarrow>
      let target = (if stateRef s = TREE then star_treePos st else star_scatterPos st)
      in s\<lparr>logicDataRef := (logicDataRef s)
              \<lparr>star := Some (st\<lparr>star_position := lerp (star_position st) target (Fin 0.05),
                                star_rotation_y := star_rotation_y st + Fin 0.02\<rparr>)\<rparr>\<rparr>)"

text \<open>One frame. Rendering and the request for the next frame change no state.\<close>

definition animate :: "(XY \<Rightarrow> Vector3) \<Rightarrow> App \<Rightarrow> App" where
  "animate front s =
     (if \<not> composerRef s \<or> mainGroupRef s = None \<or> \<not> rendererRef s then s
      else updateStar (updatePhotos front (updateDust (updateGroups (stateManagement
             (s\<lparr>timeRef := timeRef s + Fin 0.01\<rparr>))))))"

text \<open>The frame loop runs its steps only when the composer, the main group and the
  renderer exist.\<close>

definition ready :: "App \<Rightarrow> bool" where
  "ready s = (composerRef s \<and> rendererRef s \<and> mainGroupRef s \<noteq> None)"

text \<open>The data array that \<^verbatim>\<open>animate\<close> passes to \<^verbatim>\<open>updateMeshGroup\<close> together with the
  mesh index \<open>n\<close>.\<close>

definition dataOf :: "nat \<Rightarrow> LogicData \<Rightarrow> InstanceData list" where
  "dataOf n ld =
     (if n = 0 then gold ld else if n = 1 then silver ld else if n = 2 then gem ld
      else emerald ld)"


definition vec :: "real \<Rightarrow> real \<Rightarrow> real \<Rightarrow> Vector3" where
  "vec a b c = \<lparr>vx = Fin a, vy = Fin b, vz = Fin c\<rparr>"

text \<open>The comparison \<^verbatim>\<open>a <= b\<close> of two numbers.\<close>

definition le :: "number \<Rightarrow> number \<Rightarrow> bool" where
  "le a b = (case a of NaN \<Rightarrow> False | Fin x \<Rightarrow> (case b of NaN \<Rightarrow> False | Fin y \<Rightarrow> x \<le> y))"

text \<open>
  Two measures of one step toward rest. A component \<open>w\<close> has decayed from \<open>v\<close> when both
  are finite, the magnitude of \<open>w\<close> is not above that of \<open>v\<close>, and \<open>w\<close> has the sign of \<open>v\<close>.
  A position \<open>c'\<close> has moved from \<open>c\<close> toward \<open>t\<close> when each of its coordinates lies between
  the coordinate of \<open>c\<close> and the coordinate of \<open>t\<close>, ends included: it has not passed
  the target and has not moved away from it.
\<close>

definition decays :: "number \<Rightarrow> number \<Rightarrow> bool" where
  "decays v w =
     (case v of NaN \<Rightarrow> False
      | Fin a \<Rightarrow> (case w of NaN \<Rightarrow> False | Fin b \<Rightarrow> \<bar>b\<bar> \<le> \<bar>a\<bar> \<and> sgn b = sgn a))"



text \<open>A position with a NaN component.\<close>

definition hasNaN :: "Vector3 \<Rightarrow> bool" where
  "hasNaN v = (vx v = NaN \<or> vy v = NaN \<or> vz v = NaN)"

text \<open>
  A value for the parameter \<open>front\<close>: the camera stays at \<open>(0, 0, 120)\<close> and looks down the
  negative z axis, so the point 60 units in front of it is \<open>(0, 0, 60)\<close>; the main group
  sits at the origin, rotated by its angles x and y, and the inverse of that rotation takes
  the point to the coordinates below. The rotation matrix mixes both angles into every
  entry, so a single NaN angle makes all three coordinates NaN.
\<close>

definition frontOfCamera :: "XY \<Rightarrow> Vector3" where
  "frontOfCamera r =
     (case x_of r of
        NaN \<Rightarrow> \<lparr>vx = NaN, vy = NaN, vz = NaN\<rparr>
      | Fin a \<Rightarrow>
         (case y_of r of
            NaN \<Rightarrow> \<lparr>vx = NaN, vy = NaN, vz = NaN\<rparr>
          | Fin b \<Rightarrow> \<lparr> vx = Fin (- 60 * sin b * cos a),
                       vy = Fin (60 * sin a),
                       vz = Fin (60 * cos b * cos a) \<rparr>))"

section \<open>The component from its first render on\<close>

text \<open>The initial values of the state hooks and of the refs.\<close>

definition initialApp :: App where
  "initialApp =
     \<lparr> currentState = TREE,
       statusText = ''Waiting for camera...'',
       statusColor = ''#ffd700'',
       photoCount = 0,
       composerRef = False,
       rendererRef = False,
       cameraRef = False,
       mainGroupRef = None,
       dustSystemRef = False,
       logicDataRef = \<lparr>gold = [], silver = [], gem = [], emerald = [], dust = [], star = None\<rparr>,
       photoMeshesRef = [],
       stateRef = TREE,
       zoomTargetIndexRef = - 1,
       isHandPresentRef = False,
       handPosRef = \<lparr>x_of = Fin 0.5, y_of = Fin 0.5\<rparr>,
       lastHandPosRef = \<lparr>x_of = Fin 0.5, y_of = Fin 0.5\<rparr>,
       rotVelocityRef = \<lparr>x_of = Fin 0, y_of = Fin 0\<rparr>,
       timeRef = Fin 0 \<rparr>"

text \<open>
  \<^verbatim>\<open>initThree\<close> creates the renderer, the camera, the composer and the main group with
  its jewels, star and dust, unless a renderer exists already. The randomly placed content
  it creates is the pair of arguments.
\<close>

definition initThree :: "Group \<Rightarrow> LogicData \<Rightarrow> App \<Rightarrow> App" where
  "initThree mainGroup logicData s =
     (if rendererRef s then s
      else s\<lparr>composerRef := True, rendererRef := True, cameraRef := True,
             mainGroupRef := Some mainGroup, dustSystemRef := True,
             logicDataRef := logicData\<rparr>)"

text \<open>The states the component can reach: by mounting, by the effect that refreshes
  \<^verbatim>\<open>stateRef\<close>, by a detection result, by an uploaded photo and by a frame.\<close>

inductive reachable :: "App \<Rightarrow> bool" where
  start: "reachable initialApp"
| mount: "reachable s \<Longrightarrow> reachable (initThree mainGroup logicData s)"
| effect: "reachable s \<Longrightarrow> reachable (syncState s)"
| detection: "reachable s \<Longrightarrow> predictWebcam result_landmarks s = Some s' \<Longrightarrow> reachable s'"
| upload: "reachable s \<Longrightarrow> reachable (addPhoto img rnd s)"
| frame: "reachable s \<Longrightarrow> reachable (animate front s)"

text \<open>The invariant of the photo cursor: it is \<open>-1\<close> or an index of a photo, and it is
  not \<open>-1\<close> when the Mode, or its copy in \<^verbatim>\<open>stateRef\<close>, is \<open>ZOOM\<close>.\<close>

definition cursorOk :: "App \<Rightarrow> bool" where
  "cursorOk s =
     ((zoomTargetIndexRef s = - 1 \<or>
         (0 \<le> zoomTargetIndexRef s \<and> zoomTargetIndexRef s < int (length (photoMeshesRef s)))) \<and>
      (currentState s = ZOOM \<longrightarrow> 0 \<le> zoomTargetIndexRef s) \<and>
      (stateRef s = ZOOM \<longrightarrow> 0 \<le> zoomTargetIndexRef s))"

section \<open>Concrete hands and scenes\<close>

text \<open>Three hands of 21 landmarks (a fist, an open hand, a pinch), and a small scene with
  one instance in each of the four groups, one dust mote and the star.\<close>

definition landmark :: "real \<Rightarrow> real \<Rightarrow> NormalizedLandmark" where
  "landmark a b = \<lparr>lm_x = Fin a, lm_y = Fin b\<rparr>"

definition fistHand :: "NormalizedLandmark list" where
  "fistHand =
     [landmark 0 0, landmark 0 0, landmark 0 0, landmark 0 0, landmark 1 0,
      landmark 0 0, landmark 0.5 0, landmark 0 0, landmark 0.1 0,
      landmark 0.5 0.5, landmark 0.5 0, landmark 0 0, landmark 0.1 0,
      landmark 0 0, landmark 0.5 0, landmark 0 0, landmark 0.1 0,
      landmark 0 0, landmark 0.5 0, landmark 0 0, landmark 0.1 0]"

definition openHand :: "NormalizedLandmark list" where
  "openHand =
     [landmark 0 0, landmark 0 0, landmark 0 0, landmark 0 0, landmark 1 1,
      landmark 0 0, landmark 0.5 0, landmark 0 0, landmark 1 0,
      landmark 0.5 0.5, landmark 0.5 0, landmark 0 0, landmark 1 0,
      landmark 0 0, landmark 0.5 0, landmark 0 0, landmark 1 0,
      landmark 0 0, landmark 0.5 0, landmark 0 0, landmark 1 0]"

definition pinchHand :: "NormalizedLandmark list" where
  "pinchHand = openHand[4 := landmark 1 0]"

definition demoPhoto :: Photo where
  "demoPhoto = \<lparr> photo_treePos = Some \<lparr>vx = Fin 20, vy = Fin 0, vz = Fin 0\<rparr>,
                 photo_scatterPos = Some \<lparr>vx = Fin 10, vy = Fin (- 10), vz = Fin 30\<rparr>,
                 baseRot_y = Fin (pi / 2),
                 photo_position = \<lparr>vx = Fin 20, vy = Fin 0, vz = Fin 0\<rparr>,
                 photo_scale = \<lparr>vx = Fin 1, vy = Fin 1, vz = Fin 1\<rparr>,
                 plane_w = Fin 4, plane_h = Fin 4 \<rparr>"

definition demoItem :: InstanceData where
  "demoItem = \<lparr> treePos = \<lparr>vx = Fin 1, vy = Fin 2, vz = Fin 2\<rparr>,
                scatterPos = \<lparr>vx = Fin 10, vy = Fin 20, vz = Fin (- 30)\<rparr>,
                currentPos = \<lparr>vx = Fin 1, vy = Fin 2, vz = Fin 2\<rparr>,
                scale = Fin 1.5,
                velocity = \<lparr>vx = Fin 0, vy = Fin 0, vz = Fin 0\<rparr>,
                rotSpeed = \<lparr>x_of = Fin 0.01, y_of = Fin 0.02\<rparr> \<rparr>"

definition demoMatrix :: Matrix where
  "demoMatrix = \<lparr> m_position = \<lparr>vx = Fin 1, vy = Fin 2, vz = Fin 2\<rparr>,
                  m_rotation = \<lparr>x_of = Fin 0, y_of = Fin 0\<rparr>,
                  m_scale = Fin 1 \<rparr>"

definition demoGroup :: Group where
  "demoGroup = \<lparr> rotation = \<lparr>x_of = Fin 0, y_of = Fin 0\<rparr>,
                 children = [InstancedMesh [demoMatrix], InstancedMesh [demoMatrix],
                             InstancedMesh [demoMatrix], InstancedMesh [demoMatrix],
                             Object3D, Object3D] \<rparr>"

definition demoLogic :: LogicData where
  "demoLogic = \<lparr> gold = [demoItem], silver = [demoItem], gem = [demoItem], emerald = [demoItem],
                 dust = [\<lparr>dust_currentPos = \<lparr>vx = Fin 3, vy = Fin 4, vz = Fin 5\<rparr>,
                          baseY = Fin 4, speed = Fin 0.03\<rparr>],
                 star = Some \<lparr> star_treePos = \<lparr>vx = Fin 0, vy = Fin 38, vz = Fin 0\<rparr>,
                               star_scatterPos = \<lparr>vx = Fin 0, vy = Fin 60, vz = Fin 0\<rparr>,
                               star_position = \<lparr>vx = Fin 0, vy = Fin 38, vz = Fin 0\<rparr>,
                               star_rotation_y = Fin 0 \<rparr> \<rparr>"

definition demoApp :: App where
  "demoApp = initThree demoGroup demoLogic initialApp"

definition demoImage :: Image where
  "demoImage = \<lparr>img_width = Fin 640, img_height = Fin 480\<rparr>"

definition demoDraws :: Draws where
  "demoDraws = \<lparr>r_angle = Fin 0, r_rad = Fin 0.5, r_y = Fin 0.5,
                 r_sx = Fin 0.25, r_sy = Fin 0.5, r_sz = Fin 0.75\<rparr>"

text \<open>The small scene in \<open>SCATTER\<close> mode, with its gold instance at its scatter target.\<close>

definition scatteredApp :: App where
  "scatteredApp =
     demoApp\<lparr> currentState := SCATTER, stateRef := SCATTER,
              logicDataRef := demoLogic\<lparr>gold := [demoItem\<lparr>currentPos := scatterPos demoItem\<rparr>]\<rparr> \<rparr>"

text \<open>An open hand whose palm landmark has NaN coordinates, the scattered scene after
  that hand was detected, and a scene in \<open>ZOOM\<close> with one photo selected and a group
  rotation that is NaN.\<close>

definition nanHand :: "NormalizedLandmark list" where
  "nanHand = openHand[9 := \<lparr>lm_x = NaN, lm_y = NaN\<rparr>]"

definition nanApp :: App where
  "nanApp = scatteredApp\<lparr>isHandPresentRef := True, handPosRef := \<lparr>x_of = NaN, y_of = NaN\<rparr>\<rparr>"

definition nanZoomApp :: App where
  "nanZoomApp =
     demoApp\<lparr> currentState := ZOOM, stateRef := ZOOM, photoMeshesRef := [demoPhoto],
              zoomTargetIndexRef := 0,
              mainGroupRef := Some (demoGroup\<lparr>rotation := \<lparr>x_of = NaN, y_of = NaN\<rparr>\<rparr>) \<rparr>"

text \<open>The state after a photo was uploaded to the small scene, an open hand was detected,
  the effect ran and a pinch was detected.\<close>

definition zoomedApp :: "App option" where
  "zoomedApp =
     (case predictWebcam (Some [openHand]) (addPhoto demoImage demoDraws demoApp) of
        None \<Rightarrow> None
      | Some s \<Rightarrow> predictWebcam (Some [pinchHand]) (syncState s))"

text \<open>
  The small scene after an open hand was detected; the state after the effect ran and a
  photo was then uploaded, whose Mode is \<open>TREE\<close> while \<^verbatim>\<open>stateRef\<close> still holds \<open>SCATTER\<close>;
  and the state after a photo was uploaded to the small scene and an open hand was then
  detected, whose Mode is \<open>SCATTER\<close> while \<^verbatim>\<open>stateRef\<close> still holds \<open>TREE\<close>.
\<close>

definition openedApp :: App where
  "openedApp =
     demoApp\<lparr> isHandPresentRef := True,
              handPosRef := \<lparr>x_of = Fin 0.5, y_of = Fin 0.5\<rparr>,
              currentState := SCATTER,
              statusText := ''Nebula Scattered (Wave to Rotate)'',
              statusColor := ''#ffffff'',
              lastHandPosRef := \<lparr>x_of = Fin 0.5, y_of = Fin 0.5\<rparr> \<rparr>"

definition laggingApp :: App where
  "laggingApp = addPhoto demoImage demoDraws (syncState openedApp)"

definition staleApp :: App where
  "staleApp =
     (addPhoto demoImage demoDraws demoApp)
       \<lparr> isHandPresentRef := True,
         handPosRef := \<lparr>x_of = Fin 0.5, y_of = Fin 0.5\<rparr>,
         currentState := SCATTER,
         statusText := ''Nebula Scattered (Wave to Rotate)'',
         statusColor := ''#ffffff'',
         lastHandPosRef := \<lparr>x_of = Fin 0.5, y_of = Fin 0.5\<rparr> \<rparr>"


section \<open>Facts about the concrete hands and scenes\<close>

lemma demoApp_fields:
  "currentState demoApp = TREE" "stateRef demoApp = TREE" "photoMeshesRef demoApp = []"
  "zoomTargetIndexRef demoApp = - 1" "rendererRef demoApp" "composerRef demoApp"
  "mainGroupRef demoApp = Some demoGroup" "logicDataRef demoApp = demoLogic"
  "cameraRef demoApp" "dustSystemRef demoApp" "photoCount demoApp = 0"
  by (simp_all add: demoApp_def initThree_def initialApp_def)

lemma sqrt_less_const: "0 < c \<Longrightarrow> (sqrt x < c) = (x < c\<^sup>2)"
  by (metis abs_of_pos real_sqrt_abs real_sqrt_less_iff)

lemmas hand_simps = isFist_def isPinch_def isFingerFolded_def and_then_def at_index_def
  Math_hypot_def lt_def landmark_def minus_number_def Let_def

lemma fistHand_facts:
  "length fistHand = 21" "isFist fistHand = Some True" "isPinch fistHand = Some False"
  by (simp_all add: fistHand_def hand_simps sqrt_less_const)

lemma openHand_facts:
  "length openHand = 21" "isFist openHand = Some False" "isPinch openHand = Some False"
  by (simp_all add: openHand_def hand_simps sqrt_less_const)

lemma palm_facts:
  "lm_x (openHand ! 9) = Fin 0.5" "lm_y (openHand ! 9) = Fin 0.5"
  "lm_x (pinchHand ! 9) = Fin 0.5" "lm_y (pinchHand ! 9) = Fin 0.5"
  by (simp_all add: pinchHand_def openHand_def landmark_def)

lemma pinchHand_facts:
  "length pinchHand = 21" "isFist pinchHand = Some False" "isPinch pinchHand = Some True"
  by (simp_all add: pinchHand_def openHand_def hand_simps sqrt_less_const)

section \<open>The photo cursor\<close>

lemma smod_nonneg: "0 \<le> a \<Longrightarrow> 0 < b \<Longrightarrow> (a::int) smod b = a mod b"
  by (simp add: signed_modulo_int_def sgn_if)

lemma select_iter:
  assumes "zoomTargetIndexRef s = - 1" "length (photoMeshesRef s) = M" "0 < M"
  shows "photoMeshesRef ((selectClosestPhoto ^^ Suc K) s) = photoMeshesRef s \<and>
         zoomTargetIndexRef ((selectClosestPhoto ^^ Suc K) s) = int K mod int M"
proof (induction K)
  case 0
  have ne: "photoMeshesRef s \<noteq> []" using assms by auto
  then show ?case using assms by (simp add: selectClosestPhoto_def)
next
  case (Suc K)
  let ?t = "(selectClosestPhoto ^^ Suc K) s"
  have a: "photoMeshesRef ?t = photoMeshesRef s"
    and b: "zoomTargetIndexRef ?t = int K mod int M"
    using Suc by auto
  have ne: "photoMeshesRef s \<noteq> []" using assms by auto
  have nn: "0 \<le> int K mod int M" using assms by simp
  then have n1: "int K mod int M \<noteq> - 1" by linarith
  have "(selectClosestPhoto ^^ Suc (Suc K)) s = selectClosestPhoto ?t" by simp
  moreover have "photoMeshesRef (selectClosestPhoto ?t) = photoMeshesRef s"
    using a by (simp add: selectClosestPhoto_def)
  moreover have "zoomTargetIndexRef (selectClosestPhoto ?t) = (int K mod int M + 1) smod int M"
    using a b n1 ne assms by (simp add: selectClosestPhoto_def)
  moreover have "(int K mod int M + 1) smod int M = int (Suc K) mod int M"
    using nn assms by (simp add: smod_nonneg mod_simps add.commute)
  ultimately show ?case by simp
qed

text \<open>
  C2, as the code has it: from the cursor \<open>-1\<close> and with a fixed number \<open>M > 0\<close> of photos,
  \<open>K \<ge> 1\<close> calls of \<^verbatim>\<open>selectClosestPhoto\<close> (one per qualifying pinch) leave the cursor at
  \<open>(K - 1) mod M\<close>: the first pinch selects index 0, the second index 1, and so on round
  the photos.
\<close>

theorem cursor_after_pinches:
  assumes "zoomTargetIndexRef s = - 1" and "length (photoMeshesRef s) = M"
    and "0 < M" and "0 < K"
  shows "zoomTargetIndexRef ((selectClosestPhoto ^^ K) s) = (int K - 1) mod int M"
proof -
  obtain J where K: "K = Suc J" using assms(4) by (cases K) auto
  show ?thesis using select_iter [OF assms(1-3), of J] K by simp
qed

theorem cursor_after_pinches_witness:
  "zoomTargetIndexRef
     ((selectClosestPhoto ^^ 3) (initialApp\<lparr>photoMeshesRef := [demoPhoto, demoPhoto]\<rparr>)) = 0"
  using cursor_after_pinches [of "initialApp\<lparr>photoMeshesRef := [demoPhoto, demoPhoto]\<rparr>" 2 3]
  by (simp add: initialApp_def)

text \<open>With two photos the first pinch leaves the cursor at 0, which is not \<open>1 mod 2\<close>.\<close>

theorem cursor_after_pinches_counterexample:
  "zoomTargetIndexRef (initialApp\<lparr>photoMeshesRef := [demoPhoto, demoPhoto]\<rparr>) = - 1 \<and>
   length (photoMeshesRef (initialApp\<lparr>photoMeshesRef := [demoPhoto, demoPhoto]\<rparr>)) = 2 \<and>
   zoomTargetIndexRef
     ((selectClosestPhoto ^^ 1) (initialApp\<lparr>photoMeshesRef := [demoPhoto, demoPhoto]\<rparr>))
     \<noteq> 1 mod 2"
  by (simp add: initialApp_def selectClosestPhoto_def)

section \<open>The gesture handler\<close>

lemma isFingerFolded_total:
  "tipIdx < length landmarks \<Longrightarrow> 2 \<le> tipIdx \<Longrightarrow>
     \<exists>b. isFingerFolded landmarks tipIdx = Some b"
  by (auto simp add: isFingerFolded_def at_index_def Let_def)

lemma and_then_total: "a \<noteq> None \<Longrightarrow> b \<noteq> None \<Longrightarrow> and_then a b \<noteq> None"
  by (auto simp: and_then_def split: option.splits bool.splits)

lemma isFist_total: "21 \<le> length landmarks \<Longrightarrow> \<exists>b. isFist landmarks = Some b"
proof -
  assume l: "21 \<le> length landmarks"
  have "isFingerFolded landmarks 8 \<noteq> None" "isFingerFolded landmarks 12 \<noteq> None"
       "isFingerFolded landmarks 16 \<noteq> None" "isFingerFolded landmarks 20 \<noteq> None"
    using l isFingerFolded_total [of _ landmarks] by fastforce+
  then have "isFist landmarks \<noteq> None"
    unfolding isFist_def by (intro and_then_total)
  then show ?thesis by auto
qed

lemma isPinch_total: "9 \<le> length landmarks \<Longrightarrow> \<exists>b. isPinch landmarks = Some b"
  by (simp add: isPinch_def at_index_def)

lemma isFist_True_length: "isFist landmarks = Some True \<Longrightarrow> 20 < length landmarks"
  by (auto simp: isFist_def and_then_def isFingerFolded_def at_index_def
           split: option.splits bool.splits if_splits)

lemma handleGesture_total:
  assumes "21 \<le> length landmarks"
  shows "\<exists>s'. handleGesture landmarks s = Some s'"
proof -
  obtain f where f: "isFist landmarks = Some f" using isFist_total [OF assms] by auto
  obtain p where p: "isPinch landmarks = Some p"
    using isPinch_total [of landmarks] assms by auto
  have "at_index landmarks 9 = Some (landmarks ! 9)" using assms by (simp add: at_index_def)
  then show ?thesis using f p by (simp add: handleGesture_def Let_def)
qed

lemma handleGesture_short: "length landmarks \<le> 9 \<Longrightarrow> handleGesture landmarks s = None"
  by (simp add: handleGesture_def at_index_def)

lemma handleGesture_eq:
  assumes "9 < length landmarks" and "isFist landmarks = Some fist"
    and "isPinch landmarks = Some pinch"
  shows "handleGesture landmarks s =
     Some (if pinch then
             (if stateRef s = SCATTER \<and> photoMeshesRef s \<noteq> []
              then (selectClosestPhoto
                      (s\<lparr>handPosRef := \<lparr>x_of = lm_x (landmarks ! 9), y_of = lm_y (landmarks ! 9)\<rparr>\<rparr>))
                     \<lparr>currentState := ZOOM, statusText := ''Grabbing Photo'',
                      statusColor := ''#ffd700''\<rparr>
              else s\<lparr>handPosRef := \<lparr>x_of = lm_x (landmarks ! 9), y_of = lm_y (landmarks ! 9)\<rparr>\<rparr>)
           else if fist then
             s\<lparr>handPosRef := \<lparr>x_of = lm_x (landmarks ! 9), y_of = lm_y (landmarks ! 9)\<rparr>,
               currentState := TREE, statusText := ''Aggregated Form'', statusColor := ''#00ffaa''\<rparr>
           else if stateRef s = TREE \<or> stateRef s = ZOOM then
             s\<lparr>handPosRef := \<lparr>x_of = lm_x (landmarks ! 9), y_of = lm_y (landmarks ! 9)\<rparr>,
               currentState := SCATTER, statusText := ''Nebula Scattered (Wave to Rotate)'',
               statusColor := ''#ffffff'',
               lastHandPosRef := \<lparr>x_of = lm_x (landmarks ! 9), y_of = lm_y (landmarks ! 9)\<rparr>\<rparr>
           else s\<lparr>handPosRef := \<lparr>x_of = lm_x (landmarks ! 9), y_of = lm_y (landmarks ! 9)\<rparr>\<rparr>)"
  using assms by (simp add: handleGesture_def at_index_def Let_def)

lemma addPhoto_fields:
  assumes "mainGroupRef s = Some g"
  shows "stateRef (addPhoto img rnd s) = stateRef s"
    "rendererRef (addPhoto img rnd s) = rendererRef s"
    "zoomTargetIndexRef (addPhoto img rnd s) = zoomTargetIndexRef s"
    "length (photoMeshesRef (addPhoto img rnd s)) = Suc (length (photoMeshesRef s))"
  using assms by (simp_all add: addPhoto_def Let_def)

text \<open>
  C5: when all four fingers are folded and the hand is not in a pinch, the handler
  returns, and the Mode it sets is \<open>TREE\<close> whatever the Mode was; the effect that follows
  brings \<^verbatim>\<open>stateRef\<close> to \<open>TREE\<close> as well.
\<close>

theorem fist_gives_tree:
  assumes "isFist landmarks = Some True" and "isPinch landmarks = Some False"
  shows "\<exists>s'. handleGesture landmarks s = Some s' \<and> currentState s' = TREE \<and>
              stateRef (syncState s') = TREE"
proof -
  have "at_index landmarks 9 = Some (landmarks ! 9)"
    using isFist_True_length [OF assms(1)] by (simp add: at_index_def)
  then show ?thesis using assms by (simp add: handleGesture_def Let_def syncState_def)
qed

theorem fist_gives_tree_witness:
  "isFist fistHand = Some True \<and> isPinch fistHand = Some False \<and>
   (\<exists>s'. handleGesture fistHand (demoApp\<lparr>currentState := ZOOM, stateRef := ZOOM\<rparr>) = Some s' \<and>
         currentState s' = TREE \<and> stateRef (syncState s') = TREE)"
  using fist_gives_tree [of fistHand "demoApp\<lparr>currentState := ZOOM, stateRef := ZOOM\<rparr>"]
    fistHand_facts
  by simp

text \<open>
  C3, as the code has it. The handler reads the Mode from \<^verbatim>\<open>stateRef\<close>, the copy that the
  effect refreshes after a render, and writes the React state. For a hand of 21 landmarks
  in a pinch the handler returns, and it sets the Mode to \<open>ZOOM\<close> and advances the cursor
  (to 0 from \<open>-1\<close>, to the next index round the photos otherwise) if and only if \<^verbatim>\<open>stateRef\<close>
  holds \<open>SCATTER\<close> and there is a photo; in every other case the Mode and the cursor stay as
  they are. \<^verbatim>\<open>stateRef\<close> itself and the photos are never changed. So when \<^verbatim>\<open>stateRef\<close> is
  up to date, the Mode changes exactly when it is \<open>SCATTER\<close> and there is a photo: \<open>TREE\<close>
  stays \<open>TREE\<close>, and \<open>SCATTER\<close> without photos stays \<open>SCATTER\<close>.
\<close>

theorem pinch_transition:
  assumes "21 \<le> length landmarks" and "isPinch landmarks = Some True"
  shows "\<exists>s'. handleGesture landmarks s = Some s' \<and>
           photoMeshesRef s' = photoMeshesRef s \<and> stateRef s' = stateRef s \<and>
           (if stateRef s = SCATTER \<and> photoMeshesRef s \<noteq> []
            then currentState s' = ZOOM \<and>
                 zoomTargetIndexRef s' =
                   (if zoomTargetIndexRef s = - 1 then 0
                    else (zoomTargetIndexRef s + 1) smod int (length (photoMeshesRef s)))
            else currentState s' = currentState s \<and>
                 zoomTargetIndexRef s' = zoomTargetIndexRef s) \<and>
           (stateRef s = currentState s \<longrightarrow>
              (currentState s' \<noteq> currentState s \<longleftrightarrow>
                 currentState s = SCATTER \<and> photoMeshesRef s \<noteq> []))"
proof -
  obtain f where f: "isFist landmarks = Some f" using isFist_total [OF assms(1)] by auto
  have 9: "at_index landmarks 9 = Some (landmarks ! 9)"
    using assms(1) by (simp add: at_index_def)
  show ?thesis
    using f 9 assms(2) by (auto simp: handleGesture_def Let_def selectClosestPhoto_def)
qed

theorem pinch_transition_witness:
  "21 \<le> length pinchHand \<and> isPinch pinchHand = Some True \<and>
   (\<exists>s'. handleGesture pinchHand
           (demoApp\<lparr>currentState := SCATTER, stateRef := SCATTER, photoMeshesRef := [demoPhoto]\<rparr>)
         = Some s' \<and> currentState s' = ZOOM \<and> zoomTargetIndexRef s' = 0) \<and>
   (\<exists>s'. handleGesture pinchHand demoApp = Some s' \<and> currentState s' = TREE)"
  using pinch_transition
          [of pinchHand
              "demoApp\<lparr>currentState := SCATTER, stateRef := SCATTER, photoMeshesRef := [demoPhoto]\<rparr>"]
    pinch_transition [of pinchHand demoApp] pinchHand_facts
  by (auto simp add: demoApp_fields)

text \<open>
  Two reachable states in which \<^verbatim>\<open>stateRef\<close> lags behind the Mode. In the first the Mode
  is \<open>TREE\<close>, and a pinch sets it to \<open>ZOOM\<close> with the cursor at 0. In the second the Mode is
  \<open>SCATTER\<close> and there is a photo, and a pinch leaves the Mode \<open>SCATTER\<close>.
\<close>

theorem pinch_transition_counterexample:
  "reachable laggingApp \<and> currentState laggingApp = TREE \<and>
   isPinch pinchHand = Some True \<and>
   map_option currentState (handleGesture pinchHand laggingApp) = Some ZOOM \<and>
   map_option zoomTargetIndexRef (handleGesture pinchHand laggingApp) = Some 0 \<and>
   reachable staleApp \<and> currentState staleApp = SCATTER \<and> length (photoMeshesRef staleApp) = 1 \<and>
   map_option currentState (handleGesture pinchHand staleApp) = Some SCATTER"
proof -
  have o: "predictWebcam (Some [openHand]) demoApp = Some openedApp"
    using handleGesture_eq [of openHand False False "demoApp\<lparr>isHandPresentRef := True\<rparr>"]
    by (simp add: predictWebcam_def demoApp_fields openHand_facts openedApp_def palm_facts)
  have rd: "reachable demoApp"
    unfolding demoApp_def by (intro reachable.mount reachable.start)
  have ro: "reachable openedApp" by (rule reachable.detection [OF rd o])
  have rl: "reachable laggingApp"
    unfolding laggingApp_def by (intro reachable.upload reachable.effect ro)
  have mg: "mainGroupRef (syncState openedApp) = Some demoGroup"
    by (simp add: syncState_def openedApp_def demoApp_fields)
  note lf = addPhoto_fields [OF mg, of demoImage demoDraws]
  have l1: "currentState laggingApp = TREE" "stateRef laggingApp = SCATTER"
    "zoomTargetIndexRef laggingApp = - 1" "photoMeshesRef laggingApp \<noteq> []"
    using lf by (auto simp: laggingApp_def addPhoto_def Let_def mg syncState_def openedApp_def
                     demoApp_fields)
  have l2: "map_option currentState (handleGesture pinchHand laggingApp) = Some ZOOM"
       "map_option zoomTargetIndexRef (handleGesture pinchHand laggingApp) = Some 0"
    using handleGesture_eq [of pinchHand False True laggingApp] l1
    by (simp_all add: pinchHand_facts selectClosestPhoto_def)
  note pf = addPhoto_fields [of demoApp demoGroup demoImage demoDraws, OF demoApp_fields(7)]
  have s0: "predictWebcam (Some [openHand]) (addPhoto demoImage demoDraws demoApp) = Some staleApp"
    using handleGesture_eq [of openHand False False
            "(addPhoto demoImage demoDraws demoApp)\<lparr>isHandPresentRef := True\<rparr>"]
    by (simp add: predictWebcam_def pf demoApp_fields openHand_facts staleApp_def palm_facts)
  have rs: "reachable staleApp"
    by (rule reachable.detection [OF reachable.upload [OF rd] s0])
  have s1: "currentState staleApp = SCATTER" "stateRef staleApp = TREE"
    "length (photoMeshesRef staleApp) = 1"
    using pf by (simp_all add: staleApp_def demoApp_fields)
  have s2: "map_option currentState (handleGesture pinchHand staleApp) = Some SCATTER"
    using handleGesture_eq [of pinchHand False True staleApp] s1
    by (simp add: pinchHand_facts)
  show ?thesis using rl l1 l2 rs s1 s2 pinchHand_facts by simp
qed

text \<open>
  C7, as the code has it. A detection result without landmarks (absent, or an empty list
  of hands) is processed as "no hand": the presence flag is cleared, nothing else changes
  and nothing is thrown. A hand of at least 21 landmarks never makes the handler throw. The
  length of a shorter array is not checked: with 9 landmarks or fewer the handler throws a
  TypeError.
\<close>

theorem classifier_total_on_full_hands:
  "predictWebcam None s = Some (if rendererRef s then s\<lparr>isHandPresentRef := False\<rparr> else s) \<and>
   predictWebcam (Some []) s = Some (if rendererRef s then s\<lparr>isHandPresentRef := False\<rparr> else s) \<and>
   (21 \<le> length full \<longrightarrow> (\<exists>s'. handleGesture full s = Some s')) \<and>
   (length short \<le> 9 \<longrightarrow> handleGesture short s = None)"
  using handleGesture_total [of full s] handleGesture_short [of short s]
  by (simp add: predictWebcam_def)

theorem classifier_total_on_full_hands_witness:
  "21 \<le> length openHand \<and> (\<exists>s'. handleGesture openHand demoApp = Some s') \<and>
   length (take 5 openHand) \<le> 9 \<and> handleGesture (take 5 openHand) demoApp = None \<and>
   predictWebcam None demoApp = Some (demoApp\<lparr>isHandPresentRef := False\<rparr>)"
  using classifier_total_on_full_hands [of demoApp openHand "take 5 openHand"] openHand_facts
  by (simp add: demoApp_fields)

text \<open>A hand of five landmarks makes the detection step throw.\<close>

theorem classifier_total_counterexample:
  "rendererRef demoApp \<and> length (take 5 openHand) = 5 \<and>
   predictWebcam (Some [take 5 openHand]) demoApp = None"
  by (simp add: predictWebcam_def handleGesture_def at_index_def demoApp_fields openHand_def)

section \<open>Uploading a photo\<close>

text \<open>
  C9: once the main group exists, \<^verbatim>\<open>addPhoto\<close> sets the Mode to \<open>TREE\<close> (and the effect
  that follows brings \<^verbatim>\<open>stateRef\<close> to \<open>TREE\<close>), appends exactly one photo, raises the photo
  count by one, and leaves the photos already there, the jewels, the dust, the star, the
  rotation of the group and its existing children as they were.
\<close>

theorem addPhoto_effect:
  assumes "mainGroupRef s = Some g"
  shows "currentState (addPhoto img rnd s) = TREE \<and>
         stateRef (syncState (addPhoto img rnd s)) = TREE \<and>
         length (photoMeshesRef (addPhoto img rnd s)) = length (photoMeshesRef s) + 1 \<and>
         photoCount (addPhoto img rnd s) = photoCount s + 1 \<and>
         take (length (photoMeshesRef s)) (photoMeshesRef (addPhoto img rnd s)) = photoMeshesRef s \<and>
         logicDataRef (addPhoto img rnd s) = logicDataRef s \<and>
         (\<exists>g'. mainGroupRef (addPhoto img rnd s) = Some g' \<and> rotation g' = rotation g \<and>
               take (length (children g)) (children g') = children g)"
  using assms by (simp add: addPhoto_def Let_def syncState_def)

theorem addPhoto_effect_witness:
  "mainGroupRef (demoApp\<lparr>currentState := SCATTER, stateRef := SCATTER\<rparr>) = Some demoGroup \<and>
   currentState (addPhoto demoImage demoDraws (demoApp\<lparr>currentState := SCATTER, stateRef := SCATTER\<rparr>))
     = TREE \<and>
   length (photoMeshesRef
     (addPhoto demoImage demoDraws (demoApp\<lparr>currentState := SCATTER, stateRef := SCATTER\<rparr>))) = 1"
  using addPhoto_effect
          [of "demoApp\<lparr>currentState := SCATTER, stateRef := SCATTER\<rparr>" demoGroup demoImage demoDraws]
  by (simp add: demoApp_fields)

section \<open>What a frame does to each part of the state\<close>

lemma mesh_loop:
  assumes "k \<le> length data"
  shows "length (fst (fold (meshBody st t) [0..<k] (data, ms))) = length data \<and>
         length (snd (fold (meshBody st t) [0..<k] (data, ms))) = length ms \<and>
         (\<forall>i<length data. fst (fold (meshBody st t) [0..<k] (data, ms)) ! i =
             (if i < k then fst (updateItem st t i (data ! i)) else data ! i)) \<and>
         (\<forall>i<length ms. snd (fold (meshBody st t) [0..<k] (data, ms)) ! i =
             (if i < k then snd (updateItem st t i (data ! i)) else ms ! i))"
  using assms
proof (induction k)
  case 0
  then show ?case by simp
next
  case (Suc k)
  let ?r = "fold (meshBody st t) [0..<k] (data, ms)"
  have ih: "length (fst ?r) = length data" "length (snd ?r) = length ms"
    "\<forall>i<length data. fst ?r ! i = (if i < k then fst (updateItem st t i (data ! i)) else data ! i)"
    "\<forall>i<length ms. snd ?r ! i = (if i < k then snd (updateItem st t i (data ! i)) else ms ! i)"
    using Suc by auto
  have k: "k < length data" using Suc.prems by simp
  have step: "fold (meshBody st t) [0..<Suc k] (data, ms) = meshBody st t k ?r" by simp
  have cur: "fst ?r ! k = data ! k" using ih(3) k by simp
  show ?case
    unfolding step using ih k cur
    by (auto simp: meshBody_def Let_def nth_list_update less_Suc_eq)
qed

lemma updateMeshGroup_mesh:
  assumes "at_index chs n = Some (InstancedMesh ms)"
  shows "fst (updateMeshGroup st t n data chs) =
           map (\<lambda>i. fst (updateItem st t i (data ! i))) [0..<length data]"
    and "\<exists>ms'. snd (updateMeshGroup st t n data chs) = chs[n := InstancedMesh ms'] \<and>
               length ms' = length ms \<and>
               (\<forall>i<length ms. i < length data \<longrightarrow> ms' ! i = snd (updateItem st t i (data ! i)))"
proof -
  let ?r = "fold (meshBody st t) [0..<length data] (data, ms)"
  have eq: "updateMeshGroup st t n data chs = (fst ?r, chs[n := InstancedMesh (snd ?r)])"
    using assms by (simp add: updateMeshGroup_def Let_def)
  note L = mesh_loop [of "length data" data st t ms, simplified]
  show "fst (updateMeshGroup st t n data chs) =
           map (\<lambda>i. fst (updateItem st t i (data ! i))) [0..<length data]"
    unfolding eq using L by (intro nth_equalityI) auto
  show "\<exists>ms'. snd (updateMeshGroup st t n data chs) = chs[n := InstancedMesh ms'] \<and>
               length ms' = length ms \<and>
               (\<forall>i<length ms. i < length data \<longrightarrow> ms' ! i = snd (updateItem st t i (data ! i)))"
    unfolding eq using L by (intro exI [of _ "snd ?r"]) auto
qed


lemma updateMeshGroup_other:
  "m \<noteq> n \<Longrightarrow> at_index (snd (updateMeshGroup st t n data chs)) m = at_index chs m"
  by (auto simp: updateMeshGroup_def at_index_def Let_def split: option.splits Child.splits)

lemma updateMeshGroup_at:
  assumes "at_index chs n = Some (InstancedMesh ms)"
  shows "\<exists>ms'. at_index (snd (updateMeshGroup st t n data chs)) n = Some (InstancedMesh ms') \<and>
               length ms' = length ms \<and>
               (\<forall>i<length ms. i < length data \<longrightarrow> ms' ! i = snd (updateItem st t i (data ! i)))"
proof -
  obtain ms' where m: "snd (updateMeshGroup st t n data chs) = chs[n := InstancedMesh ms']"
     "length ms' = length ms"
     "\<forall>i<length ms. i < length data \<longrightarrow> ms' ! i = snd (updateItem st t i (data ! i))"
    using updateMeshGroup_mesh(2) [OF assms] by blast
  have "n < length chs" using assms by (simp add: at_index_def split: if_splits)
  then have "at_index (chs[n := InstancedMesh ms']) n = Some (InstancedMesh ms')"
    by (simp add: at_index_def)
  then show ?thesis using m by auto
qed


lemma updateGroups_data:
  assumes g: "mainGroupRef s = Some g"
    and ch: "at_index (children g) n = Some (InstancedMesh ms)"
    and n: "n < 4"
  shows "dataOf n (logicDataRef (updateGroups s)) =
           map (\<lambda>i. fst (updateItem (stateRef s) (timeRef s) i (dataOf n (logicDataRef s) ! i)))
               [0..<length (dataOf n (logicDataRef s))]"
proof -
  let ?st = "stateRef s" and ?t = "timeRef s" and ?ld = "logicDataRef s"
  let ?g1 = "updateMeshGroup ?st ?t 0 (gold ?ld) (children g)"
  let ?g2 = "updateMeshGroup ?st ?t 1 (silver ?ld) (snd ?g1)"
  let ?g3 = "updateMeshGroup ?st ?t 2 (gem ?ld) (snd ?g2)"
  let ?g4 = "updateMeshGroup ?st ?t 3 (emerald ?ld) (snd ?g3)"
  have ld: "logicDataRef (updateGroups s) =
              ?ld\<lparr>gold := fst ?g1, silver := fst ?g2, gem := fst ?g3, emerald := fst ?g4\<rparr>"
    using g by (simp add: updateGroups_def Let_def)
  consider "n = 0" | "n = 1" | "n = 2" | "n = 3" using n by linarith
  then show ?thesis
  proof cases
    case 1
    then show ?thesis using updateMeshGroup_mesh(1) [of "children g" 0 ms] ch
      by (simp add: ld dataOf_def)
  next
    case 2
    then have "at_index (snd ?g1) 1 = Some (InstancedMesh ms)"
      using ch by (simp add: updateMeshGroup_other)
    from updateMeshGroup_mesh(1) [OF this] 2 show ?thesis by (simp add: ld dataOf_def)
  next
    case 3
    then have "at_index (snd ?g2) 2 = Some (InstancedMesh ms)"
      using ch by (simp add: updateMeshGroup_other)
    from updateMeshGroup_mesh(1) [OF this] 3 show ?thesis by (simp add: ld dataOf_def)
  next
    case 4
    then have "at_index (snd ?g3) 3 = Some (InstancedMesh ms)"
      using ch by (simp add: updateMeshGroup_other)
    from updateMeshGroup_mesh(1) [OF this] 4 show ?thesis by (simp add: ld dataOf_def)
  qed
qed

lemma updateGroups_mesh:
  assumes g: "mainGroupRef s = Some g"
    and ch: "at_index (children g) n = Some (InstancedMesh ms)"
    and n: "n < 4"
  shows "\<exists>g' ms'. mainGroupRef (updateGroups s) = Some g' \<and> rotation g' = rotation g \<and>
           at_index (children g') n = Some (InstancedMesh ms') \<and> length ms' = length ms \<and>
           (\<forall>i<length ms. i < length (dataOf n (logicDataRef s)) \<longrightarrow>
               ms' ! i = snd (updateItem (stateRef s) (timeRef s) i (dataOf n (logicDataRef s) ! i)))"
proof -
  let ?st = "stateRef s" and ?t = "timeRef s" and ?ld = "logicDataRef s"
  let ?g1 = "updateMeshGroup ?st ?t 0 (gold ?ld) (children g)"
  let ?g2 = "updateMeshGroup ?st ?t 1 (silver ?ld) (snd ?g1)"
  let ?g3 = "updateMeshGroup ?st ?t 2 (gem ?ld) (snd ?g2)"
  let ?g4 = "updateMeshGroup ?st ?t 3 (emerald ?ld) (snd ?g3)"
  have mg: "mainGroupRef (updateGroups s) = Some (g\<lparr>children := snd ?g4\<rparr>)"
    using g by (simp add: updateGroups_def Let_def)
  have "\<exists>ms'. at_index (snd ?g4) n = Some (InstancedMesh ms') \<and> length ms' = length ms \<and>
           (\<forall>i<length ms. i < length (dataOf n ?ld) \<longrightarrow>
               ms' ! i = snd (updateItem ?st ?t i (dataOf n ?ld ! i)))"
  proof -
    consider "n = 0" | "n = 1" | "n = 2" | "n = 3" using n by linarith
    then show ?thesis
    proof cases
      case 1
      from updateMeshGroup_at [of "children g" 0 ms ?st ?t "gold ?ld"] ch 1
      show ?thesis by (simp add: updateMeshGroup_other dataOf_def)
    next
      case 2
      then have "at_index (snd ?g1) 1 = Some (InstancedMesh ms)"
        using ch by (simp add: updateMeshGroup_other)
      from updateMeshGroup_at [OF this, of ?st ?t "silver ?ld"] 2
      show ?thesis by (simp add: updateMeshGroup_other dataOf_def)
    next
      case 3
      then have "at_index (snd ?g2) 2 = Some (InstancedMesh ms)"
        using ch by (simp add: updateMeshGroup_other)
      from updateMeshGroup_at [OF this, of ?st ?t "gem ?ld"] 3
      show ?thesis by (simp add: updateMeshGroup_other dataOf_def)
    next
      case 4
      then have "at_index (snd ?g3) 3 = Some (InstancedMesh ms)"
        using ch by (simp add: updateMeshGroup_other)
      from updateMeshGroup_at [OF this, of ?st ?t "emerald ?ld"] 4
      show ?thesis by (simp add: updateMeshGroup_other dataOf_def)
    qed
  qed
  then show ?thesis using mg by auto
qed


lemma stateManagement_keeps:
  "stateRef (stateManagement s) = stateRef s"
  "timeRef (stateManagement s) = timeRef s"
  "logicDataRef (stateManagement s) = logicDataRef s"
  "photoMeshesRef (stateManagement s) = photoMeshesRef s"
  "composerRef (stateManagement s) = composerRef s"
  "rendererRef (stateManagement s) = rendererRef s"
  "cameraRef (stateManagement s) = cameraRef s"
  "dustSystemRef (stateManagement s) = dustSystemRef s"
  "zoomTargetIndexRef (stateManagement s) = zoomTargetIndexRef s"
  "isHandPresentRef (stateManagement s) = isHandPresentRef s"
  "handPosRef (stateManagement s) = handPosRef s"
  "currentState (stateManagement s) = currentState s"
  by (simp_all add: stateManagement_def Let_def split: option.splits)

lemma stateManagement_group:
  "mainGroupRef s = Some g \<Longrightarrow>
     \<exists>g'. mainGroupRef (stateManagement s) = Some g' \<and> children g' = children g"
  by (simp add: stateManagement_def Let_def)

lemma updateGroups_keeps:
  "stateRef (updateGroups s) = stateRef s"
  "timeRef (updateGroups s) = timeRef s"
  "photoMeshesRef (updateGroups s) = photoMeshesRef s"
  "composerRef (updateGroups s) = composerRef s"
  "rendererRef (updateGroups s) = rendererRef s"
  "cameraRef (updateGroups s) = cameraRef s"
  "dustSystemRef (updateGroups s) = dustSystemRef s"
  "zoomTargetIndexRef (updateGroups s) = zoomTargetIndexRef s"
  "isHandPresentRef (updateGroups s) = isHandPresentRef s"
  "handPosRef (updateGroups s) = handPosRef s"
  "lastHandPosRef (updateGroups s) = lastHandPosRef s"
  "rotVelocityRef (updateGroups s) = rotVelocityRef s"
  "currentState (updateGroups s) = currentState s"
  "star (logicDataRef (updateGroups s)) = star (logicDataRef s)"
  "dust (logicDataRef (updateGroups s)) = dust (logicDataRef s)"
  "map_option rotation (mainGroupRef (updateGroups s)) = map_option rotation (mainGroupRef s)"
  by (simp_all add: updateGroups_def Let_def split: option.splits)

lemma updateDust_keeps:
  "stateRef (updateDust s) = stateRef s"
  "timeRef (updateDust s) = timeRef s"
  "photoMeshesRef (updateDust s) = photoMeshesRef s"
  "composerRef (updateDust s) = composerRef s"
  "rendererRef (updateDust s) = rendererRef s"
  "cameraRef (updateDust s) = cameraRef s"
  "dustSystemRef (updateDust s) = dustSystemRef s"
  "zoomTargetIndexRef (updateDust s) = zoomTargetIndexRef s"
  "isHandPresentRef (updateDust s) = isHandPresentRef s"
  "handPosRef (updateDust s) = handPosRef s"
  "lastHandPosRef (updateDust s) = lastHandPosRef s"
  "rotVelocityRef (updateDust s) = rotVelocityRef s"
  "currentState (updateDust s) = currentState s"
  "mainGroupRef (updateDust s) = mainGroupRef s"
  "star (logicDataRef (updateDust s)) = star (logicDataRef s)"
  "dataOf n (logicDataRef (updateDust s)) = dataOf n (logicDataRef s)"
  by (simp_all add: updateDust_def Let_def dataOf_def)

lemma updatePhotos_keeps:
  "stateRef (updatePhotos front s) = stateRef s"
  "timeRef (updatePhotos front s) = timeRef s"
  "logicDataRef (updatePhotos front s) = logicDataRef s"
  "composerRef (updatePhotos front s) = composerRef s"
  "rendererRef (updatePhotos front s) = rendererRef s"
  "cameraRef (updatePhotos front s) = cameraRef s"
  "dustSystemRef (updatePhotos front s) = dustSystemRef s"
  "zoomTargetIndexRef (updatePhotos front s) = zoomTargetIndexRef s"
  "isHandPresentRef (updatePhotos front s) = isHandPresentRef s"
  "handPosRef (updatePhotos front s) = handPosRef s"
  "lastHandPosRef (updatePhotos front s) = lastHandPosRef s"
  "rotVelocityRef (updatePhotos front s) = rotVelocityRef s"
  "currentState (updatePhotos front s) = currentState s"
  "mainGroupRef (updatePhotos front s) = mainGroupRef s"
  "length (photoMeshesRef (updatePhotos front s)) = length (photoMeshesRef s)"
  by (simp_all add: updatePhotos_def split: option.splits)

lemma updateStar_keeps:
  "stateRef (updateStar s) = stateRef s"
  "timeRef (updateStar s) = timeRef s"
  "photoMeshesRef (updateStar s) = photoMeshesRef s"
  "composerRef (updateStar s) = composerRef s"
  "rendererRef (updateStar s) = rendererRef s"
  "cameraRef (updateStar s) = cameraRef s"
  "dustSystemRef (updateStar s) = dustSystemRef s"
  "zoomTargetIndexRef (updateStar s) = zoomTargetIndexRef s"
  "isHandPresentRef (updateStar s) = isHandPresentRef s"
  "handPosRef (updateStar s) = handPosRef s"
  "lastHandPosRef (updateStar s) = lastHandPosRef s"
  "rotVelocityRef (updateStar s) = rotVelocityRef s"
  "currentState (updateStar s) = currentState s"
  "mainGroupRef (updateStar s) = mainGroupRef s"
  "dust (logicDataRef (updateStar s)) = dust (logicDataRef s)"
  "dataOf n (logicDataRef (updateStar s)) = dataOf n (logicDataRef s)"
  by (simp_all add: updateStar_def Let_def dataOf_def split: option.splits)

lemmas stage_keeps = stateManagement_keeps updateGroups_keeps updateDust_keeps
  updatePhotos_keeps updateStar_keeps

lemma animate_ready:
  "ready s \<Longrightarrow> animate front s =
       updateStar (updatePhotos front (updateDust (updateGroups (stateManagement
             (s\<lparr>timeRef := timeRef s + Fin 0.01\<rparr>)))))"
  by (auto simp add: animate_def ready_def)

lemma animate_not_ready: "\<not> ready s \<Longrightarrow> animate front s = s"
  by (auto simp add: animate_def ready_def)

lemma animate_keeps:
  "stateRef (animate front s) = stateRef s"
  "composerRef (animate front s) = composerRef s"
  "rendererRef (animate front s) = rendererRef s"
  "cameraRef (animate front s) = cameraRef s"
  "zoomTargetIndexRef (animate front s) = zoomTargetIndexRef s"
  "isHandPresentRef (animate front s) = isHandPresentRef s"
  "handPosRef (animate front s) = handPosRef s"
  "currentState (animate front s) = currentState s"
  "length (photoMeshesRef (animate front s)) = length (photoMeshesRef s)"
  by (cases "ready s"; simp add: animate_ready animate_not_ready stage_keeps)+

lemma animate_data:
  assumes "ready s" and g: "mainGroupRef s = Some g"
    and ch: "at_index (children g) n = Some (InstancedMesh ms)" and n: "n < 4"
  shows "dataOf n (logicDataRef (animate front s)) =
           map (\<lambda>i. fst (updateItem (stateRef s) (timeRef s + Fin 0.01) i
                            (dataOf n (logicDataRef s) ! i)))
               [0..<length (dataOf n (logicDataRef s))]"
proof -
  let ?s1 = "stateManagement (s\<lparr>timeRef := timeRef s + Fin 0.01\<rparr>)"
  obtain g' where g': "mainGroupRef ?s1 = Some g'" "children g' = children g"
    using stateManagement_group [of "s\<lparr>timeRef := timeRef s + Fin 0.01\<rparr>" g] g by auto
  have "at_index (children g') n = Some (InstancedMesh ms)" using ch g'(2) by simp
  from updateGroups_data [OF g'(1) this n]
  show ?thesis using assms(1) by (simp add: animate_ready stage_keeps)
qed

lemma animate_mesh:
  assumes "ready s" and g: "mainGroupRef s = Some g"
    and ch: "at_index (children g) n = Some (InstancedMesh ms)" and n: "n < 4"
  shows "\<exists>g' ms'. mainGroupRef (animate front s) = Some g' \<and>
           at_index (children g') n = Some (InstancedMesh ms') \<and> length ms' = length ms \<and>
           (\<forall>i<length ms. i < length (dataOf n (logicDataRef s)) \<longrightarrow>
               ms' ! i = snd (updateItem (stateRef s) (timeRef s + Fin 0.01) i
                                (dataOf n (logicDataRef s) ! i)))"
proof -
  let ?s1 = "stateManagement (s\<lparr>timeRef := timeRef s + Fin 0.01\<rparr>)"
  obtain g' where g': "mainGroupRef ?s1 = Some g'" "children g' = children g"
    using stateManagement_group [of "s\<lparr>timeRef := timeRef s + Fin 0.01\<rparr>" g] g by auto
  have "at_index (children g') n = Some (InstancedMesh ms)" using ch g'(2) by simp
  from updateGroups_mesh [OF g'(1) this n]
  show ?thesis using assms(1) by (simp add: animate_ready stage_keeps) blast
qed

section \<open>Arithmetic of numbers and of the blend\<close>

lemma number_arith [simp]:
  "Fin a + Fin b = Fin (a + b)" "Fin a - Fin b = Fin (a - b)" "Fin a * Fin b = Fin (a * b)"
  "NaN + x = NaN" "x + NaN = NaN" "NaN - x = NaN" "x - NaN = NaN" "NaN * x = NaN" "x * NaN = NaN"
  by (simp_all add: plus_number_def minus_number_def times_number_def split: number.splits)

lemma lt_simps [simp]: "lt (Fin a) (Fin b) = (a < b)" "lt NaN x = False" "lt x NaN = False"
  by (simp_all add: lt_def split: number.splits)



lemma updateItem_scale:
  "m_scale (snd (updateItem state time i item)) =
     (if state = ZOOM then scale item * Fin 0.5 else scale item)"
  "scale (fst (updateItem state time i item)) = scale item"
  by (simp_all add: updateItem_def Let_def)

section \<open>The scale of the instances\<close>

text \<open>
  C10: in a frame that runs (composer, group and renderer exist) and for an instance \<open>i\<close> of
  the instanced mesh \<open>n\<close> (one of the four groups), the scale stored in the instance matrix
  is 0.5 times the base scale of the item when the Mode is \<open>ZOOM\<close> and the base scale itself
  in every other Mode. It is computed from the base scale alone, not from the matrix of
  the frame before, so it takes effect in the first frame in \<open>ZOOM\<close> and is back at the
  base scale in the first frame after \<open>ZOOM\<close>; the base scale of the item never changes.
\<close>

theorem zoom_scale_is_instant:
  assumes "ready s" and "mainGroupRef s = Some g" and "n < 4"
    and "at_index (children g) n = Some (InstancedMesh ms)"
    and "i < length ms" and "i < length (dataOf n (logicDataRef s))"
  shows "\<exists>g' ms'. mainGroupRef (animate front s) = Some g' \<and>
           at_index (children g') n = Some (InstancedMesh ms') \<and> i < length ms' \<and>
           m_scale (ms' ! i) =
             (if stateRef s = ZOOM then scale (dataOf n (logicDataRef s) ! i) * Fin 0.5
              else scale (dataOf n (logicDataRef s) ! i)) \<and>
           scale (dataOf n (logicDataRef (animate front s)) ! i) =
             scale (dataOf n (logicDataRef s) ! i)"
proof -
  obtain g' ms' where m: "mainGroupRef (animate front s) = Some g'"
      "at_index (children g') n = Some (InstancedMesh ms')" "length ms' = length ms"
      "\<forall>i<length ms. i < length (dataOf n (logicDataRef s)) \<longrightarrow>
          ms' ! i = snd (updateItem (stateRef s) (timeRef s + Fin 0.01) i
                           (dataOf n (logicDataRef s) ! i))"
    using animate_mesh [OF assms(1,2,4,3), of front] by blast
  have "ms' ! i = snd (updateItem (stateRef s) (timeRef s + Fin 0.01) i
                           (dataOf n (logicDataRef s) ! i))"
    using m(4) assms(5,6) by simp
  moreover have "dataOf n (logicDataRef (animate front s)) ! i =
      fst (updateItem (stateRef s) (timeRef s + Fin 0.01) i (dataOf n (logicDataRef s) ! i))"
    using animate_data [OF assms(1,2,4,3), of front] assms(6) by simp
  ultimately show ?thesis using m(1,2,3) assms(5) by (simp add: updateItem_scale)
qed

theorem zoom_scale_is_instant_witness:
  "ready (demoApp\<lparr>stateRef := ZOOM\<rparr>) \<and>
   mainGroupRef (demoApp\<lparr>stateRef := ZOOM\<rparr>) = Some demoGroup \<and>
   at_index (children demoGroup) 0 = Some (InstancedMesh [demoMatrix]) \<and>
   (\<exists>g' ms'. mainGroupRef (animate frontOfCamera (demoApp\<lparr>stateRef := ZOOM\<rparr>)) = Some g' \<and>
       at_index (children g') 0 = Some (InstancedMesh ms') \<and> m_scale (ms' ! 0) = Fin 0.75)"
  using zoom_scale_is_instant [of "demoApp\<lparr>stateRef := ZOOM\<rparr>" demoGroup 0 "[demoMatrix]" 0 frontOfCamera]
  by (auto simp add: ready_def demoApp_fields demoGroup_def at_index_def dataOf_def demoLogic_def
        demoItem_def)

section \<open>The rotation momentum\<close>

lemma updateGroups_group:
  "mainGroupRef s = Some g \<Longrightarrow> \<exists>g'. mainGroupRef (updateGroups s) = Some g' \<and> rotation g' = rotation g"
  by (simp add: updateGroups_def Let_def)

lemma animate_group:
  assumes "ready s"
  shows "\<exists>g'. mainGroupRef (animate front s) = Some g' \<and>
              Some (rotation g') = map_option rotation (mainGroupRef (stateManagement s))"
proof -
  let ?s0 = "s\<lparr>timeRef := timeRef s + Fin 0.01\<rparr>"
  obtain g where g: "mainGroupRef s = Some g" using assms by (auto simp: ready_def)
  then obtain g1 where g1: "mainGroupRef (stateManagement ?s0) = Some g1"
    using stateManagement_group [of ?s0 g] by auto
  have same: "mainGroupRef (stateManagement ?s0) = mainGroupRef (stateManagement s)"
    by (simp add: stateManagement_def Let_def split: option.splits)
  obtain g2 where g2: "mainGroupRef (updateGroups (stateManagement ?s0)) = Some g2"
      "rotation g2 = rotation g1"
    using updateGroups_group [OF g1] by auto
  have "Some (rotation g2) = map_option rotation (mainGroupRef (stateManagement s))"
    using g1 g2(2) same by (metis option.simps(9))
  then show ?thesis using assms g2(1) by (simp add: animate_ready stage_keeps)
qed

lemma animate_ready_iff: "ready (animate front s) = ready s"
proof (cases "ready s")
  case True
  then show ?thesis using animate_group [OF True, of front]
    by (auto simp: ready_def animate_keeps)
next
  case False
  then show ?thesis by (simp add: animate_not_ready)
qed

lemma animate_momentum:
  "rotVelocityRef (animate front s) = (if ready s then rotVelocityRef (stateManagement s) else rotVelocityRef s)"
  "lastHandPosRef (animate front s) = (if ready s then lastHandPosRef (stateManagement s) else lastHandPosRef s)"
  by (simp_all add: animate_ready animate_not_ready stage_keeps stateManagement_def Let_def
        split: option.splits)

lemma stateManagement_velocity:
  assumes "mainGroupRef s = Some g"
  shows "rotVelocityRef (stateManagement s) =
     (if stateRef s = SCATTER then
        (if isHandPresentRef s then
           \<lparr>x_of = (x_of (rotVelocityRef s)
                      + (y_of (handPosRef s) - y_of (lastHandPosRef s)) * Fin 0.2) * Fin 0.95,
            y_of = (y_of (rotVelocityRef s)
                      + (x_of (handPosRef s) - x_of (lastHandPosRef s)) * Fin 0.2) * Fin 0.95\<rparr>
         else \<lparr>x_of = x_of (rotVelocityRef s) * Fin 0.95, y_of = y_of (rotVelocityRef s) * Fin 0.95\<rparr>)
      else rotVelocityRef s)"
    and "lastHandPosRef (stateManagement s) =
     (if stateRef s = SCATTER \<and> isHandPresentRef s
      then \<lparr>x_of = x_of (handPosRef s), y_of = y_of (handPosRef s)\<rparr> else lastHandPosRef s)"
  using assms by (simp_all add: stateManagement_def Let_def)

lemma coasting_step:
  assumes "ready s" and "stateRef s = SCATTER"
    and "isHandPresentRef s \<longrightarrow>
           handPosRef s = \<lparr>x_of = Fin hx, y_of = Fin hy\<rparr> \<and>
           lastHandPosRef s = \<lparr>x_of = Fin hx, y_of = Fin hy\<rparr>"
    and "rotVelocityRef s = \<lparr>x_of = Fin u, y_of = Fin w\<rparr>"
  shows "rotVelocityRef (animate front s) = \<lparr>x_of = Fin (u * 0.95), y_of = Fin (w * 0.95)\<rparr>"
    and "isHandPresentRef s \<longrightarrow> lastHandPosRef (animate front s) = handPosRef s"
proof -
  obtain g where g: "mainGroupRef s = Some g" using assms(1) by (auto simp: ready_def)
  show "rotVelocityRef (animate front s) = \<lparr>x_of = Fin (u * 0.95), y_of = Fin (w * 0.95)\<rparr>"
    using assms
    by (cases "isHandPresentRef s")
       (simp_all add: animate_momentum stateManagement_velocity [OF g])
  show "isHandPresentRef s \<longrightarrow> lastHandPosRef (animate front s) = handPosRef s"
    using assms by (simp add: animate_momentum stateManagement_velocity [OF g])
qed

lemma coasting_frames:
  assumes r: "ready s" and st: "stateRef s = SCATTER"
    and hand: "isHandPresentRef s \<longrightarrow>
                 handPosRef s = \<lparr>x_of = Fin hx, y_of = Fin hy\<rparr> \<and>
                 lastHandPosRef s = \<lparr>x_of = Fin hx, y_of = Fin hy\<rparr>"
    and v: "rotVelocityRef s = \<lparr>x_of = Fin a, y_of = Fin b\<rparr>"
  shows "ready ((animate front ^^ k) s) \<and> stateRef ((animate front ^^ k) s) = SCATTER \<and>
         (isHandPresentRef ((animate front ^^ k) s) \<longrightarrow>
            handPosRef ((animate front ^^ k) s) = \<lparr>x_of = Fin hx, y_of = Fin hy\<rparr> \<and>
            lastHandPosRef ((animate front ^^ k) s) = \<lparr>x_of = Fin hx, y_of = Fin hy\<rparr>) \<and>
         (\<exists>u w. rotVelocityRef ((animate front ^^ k) s) = \<lparr>x_of = Fin u, y_of = Fin w\<rparr>)"
proof (induction k)
  case 0
  show ?case using assms by simp
next
  case (Suc k)
  let ?sk = "(animate front ^^ k) s"
  have rk: "ready ?sk" and sk: "stateRef ?sk = SCATTER"
    and hk: "isHandPresentRef ?sk \<longrightarrow>
               handPosRef ?sk = \<lparr>x_of = Fin hx, y_of = Fin hy\<rparr> \<and>
               lastHandPosRef ?sk = \<lparr>x_of = Fin hx, y_of = Fin hy\<rparr>"
    using Suc by auto
  obtain u w where vk: "rotVelocityRef ?sk = \<lparr>x_of = Fin u, y_of = Fin w\<rparr>"
    using Suc by auto
  have nxt: "(animate front ^^ Suc k) s = animate front ?sk" by simp
  note step = coasting_step [OF rk sk hk vk, of front]
  have last: "isHandPresentRef ?sk \<longrightarrow>
                lastHandPosRef (animate front ?sk) = \<lparr>x_of = Fin hx, y_of = Fin hy\<rparr>"
    using step(2) hk by simp
  have fin: "\<exists>u w. rotVelocityRef (animate front ?sk) = \<lparr>x_of = Fin u, y_of = Fin w\<rparr>"
    using step(1) by blast
  show ?case
    unfolding nxt using rk sk hk last fin
    by (simp add: animate_ready_iff animate_keeps)
qed

lemma damped_decays: "decays (Fin u) (Fin (u * 0.95))"
proof -
  have "\<bar>u * 0.95\<bar> = \<bar>u\<bar> * 0.95" by (simp add: abs_mult)
  also have "\<dots> \<le> \<bar>u\<bar> * 1" by (intro mult_left_mono) simp_all
  finally have "\<bar>u * 0.95\<bar> \<le> \<bar>u\<bar>" by simp
  moreover have "sgn (u * 0.95) = sgn u" by (simp add: sgn_mult)
  ultimately show ?thesis by (simp add: decays_def)
qed

lemma coasting_decays:
  assumes "ready s" and "stateRef s = SCATTER"
    and "isHandPresentRef s \<longrightarrow>
           handPosRef s = \<lparr>x_of = Fin hx, y_of = Fin hy\<rparr> \<and>
           lastHandPosRef s = \<lparr>x_of = Fin hx, y_of = Fin hy\<rparr>"
    and "rotVelocityRef s = \<lparr>x_of = Fin a, y_of = Fin b\<rparr>"
  shows "decays (x_of (rotVelocityRef ((animate front ^^ k) s)))
                (x_of (rotVelocityRef ((animate front ^^ Suc k) s))) \<and>
         decays (y_of (rotVelocityRef ((animate front ^^ k) s)))
                (y_of (rotVelocityRef ((animate front ^^ Suc k) s)))"
proof -
  let ?sk = "(animate front ^^ k) s"
  note inv = coasting_frames [OF assms, where front = front and k = k]
  have rk: "ready ?sk" and sk: "stateRef ?sk = SCATTER"
    and hk: "isHandPresentRef ?sk \<longrightarrow>
               handPosRef ?sk = \<lparr>x_of = Fin hx, y_of = Fin hy\<rparr> \<and>
               lastHandPosRef ?sk = \<lparr>x_of = Fin hx, y_of = Fin hy\<rparr>"
    using inv by auto
  obtain u w where vk: "rotVelocityRef ?sk = \<lparr>x_of = Fin u, y_of = Fin w\<rparr>"
    using inv by auto
  have "rotVelocityRef ((animate front ^^ Suc k) s) =
          \<lparr>x_of = Fin (u * 0.95), y_of = Fin (w * 0.95)\<rparr>"
    using coasting_step(1) [OF rk sk hk vk, of front] by simp
  then show ?thesis using vk damped_decays [of u] damped_decays [of w] by simp
qed

text \<open>
  C1, as the code has it, for a frame that runs. The angular velocity is damped only
  while the Mode is \<open>SCATTER\<close>: there both components are multiplied by 0.95, after the
  impulse of the hand when a hand is present and as they are when none is; in \<open>TREE\<close> and
  in \<open>ZOOM\<close> the frame leaves the angular velocity unchanged. In \<open>SCATTER\<close>, with no hand or
  with a hand that does not move, and from a finite velocity, every one of the frames that
  follow leaves each component with a magnitude that is not above the one before the
  frame and with the same sign.
\<close>

theorem momentum_damping:
  assumes "ready s"
  shows "(stateRef s \<noteq> SCATTER \<longrightarrow> rotVelocityRef (animate front s) = rotVelocityRef s) \<and>
         (stateRef s = SCATTER \<and> \<not> isHandPresentRef s \<longrightarrow>
            rotVelocityRef (animate front s) =
              \<lparr>x_of = x_of (rotVelocityRef s) * Fin 0.95, y_of = y_of (rotVelocityRef s) * Fin 0.95\<rparr>) \<and>
         (stateRef s = SCATTER \<and> isHandPresentRef s \<longrightarrow>
            rotVelocityRef (animate front s) =
              \<lparr>x_of = (x_of (rotVelocityRef s)
                         + (y_of (handPosRef s) - y_of (lastHandPosRef s)) * Fin 0.2) * Fin 0.95,
               y_of = (y_of (rotVelocityRef s)
                         + (x_of (handPosRef s) - x_of (lastHandPosRef s)) * Fin 0.2) * Fin 0.95\<rparr>) \<and>
         (stateRef s = SCATTER \<and>
          (isHandPresentRef s \<longrightarrow>
             handPosRef s = \<lparr>x_of = Fin hx, y_of = Fin hy\<rparr> \<and>
             lastHandPosRef s = \<lparr>x_of = Fin hx, y_of = Fin hy\<rparr>) \<and>
          rotVelocityRef s = \<lparr>x_of = Fin a, y_of = Fin b\<rparr> \<longrightarrow>
            decays (x_of (rotVelocityRef ((animate front ^^ k) s)))
                   (x_of (rotVelocityRef ((animate front ^^ Suc k) s))) \<and>
            decays (y_of (rotVelocityRef ((animate front ^^ k) s)))
                   (y_of (rotVelocityRef ((animate front ^^ Suc k) s))))"
proof -
  obtain g where g: "mainGroupRef s = Some g" using assms by (auto simp: ready_def)
  have one: "rotVelocityRef (animate front s) = rotVelocityRef (stateManagement s)"
    using assms by (simp add: animate_momentum)
  have A: "stateRef s \<noteq> SCATTER \<longrightarrow> rotVelocityRef (animate front s) = rotVelocityRef s"
    unfolding one stateManagement_velocity(1) [OF g] by simp
  have B: "stateRef s = SCATTER \<and> \<not> isHandPresentRef s \<longrightarrow>
            rotVelocityRef (animate front s) =
              \<lparr>x_of = x_of (rotVelocityRef s) * Fin 0.95, y_of = y_of (rotVelocityRef s) * Fin 0.95\<rparr>"
    unfolding one stateManagement_velocity(1) [OF g] by simp
  have C: "stateRef s = SCATTER \<and> isHandPresentRef s \<longrightarrow>
            rotVelocityRef (animate front s) =
              \<lparr>x_of = (x_of (rotVelocityRef s)
                         + (y_of (handPosRef s) - y_of (lastHandPosRef s)) * Fin 0.2) * Fin 0.95,
               y_of = (y_of (rotVelocityRef s)
                         + (x_of (handPosRef s) - x_of (lastHandPosRef s)) * Fin 0.2) * Fin 0.95\<rparr>"
    unfolding one stateManagement_velocity(1) [OF g] by simp
  have D: "stateRef s = SCATTER \<and>
          (isHandPresentRef s \<longrightarrow>
             handPosRef s = \<lparr>x_of = Fin hx, y_of = Fin hy\<rparr> \<and>
             lastHandPosRef s = \<lparr>x_of = Fin hx, y_of = Fin hy\<rparr>) \<and>
          rotVelocityRef s = \<lparr>x_of = Fin a, y_of = Fin b\<rparr> \<longrightarrow>
            decays (x_of (rotVelocityRef ((animate front ^^ k) s)))
                   (x_of (rotVelocityRef ((animate front ^^ Suc k) s))) \<and>
            decays (y_of (rotVelocityRef ((animate front ^^ k) s)))
                   (y_of (rotVelocityRef ((animate front ^^ Suc k) s)))"
    by (rule impI, elim conjE, rule coasting_decays [OF assms]; assumption)
  show ?thesis by (rule conjI [OF A conjI [OF B conjI [OF C D]]])
qed

theorem momentum_damping_witness:
  "ready (scatteredApp\<lparr>rotVelocityRef := \<lparr>x_of = Fin 2, y_of = Fin (- 1)\<rparr>\<rparr>) \<and>
   stateRef (scatteredApp\<lparr>rotVelocityRef := \<lparr>x_of = Fin 2, y_of = Fin (- 1)\<rparr>\<rparr>) = SCATTER \<and>
   \<not> isHandPresentRef (scatteredApp\<lparr>rotVelocityRef := \<lparr>x_of = Fin 2, y_of = Fin (- 1)\<rparr>\<rparr>) \<and>
   rotVelocityRef (animate frontOfCamera
      (scatteredApp\<lparr>rotVelocityRef := \<lparr>x_of = Fin 2, y_of = Fin (- 1)\<rparr>\<rparr>)) =
     \<lparr>x_of = Fin 1.9, y_of = Fin (- 0.95)\<rparr> \<and>
   decays (x_of (rotVelocityRef ((animate frontOfCamera ^^ 5)
             (scatteredApp\<lparr>rotVelocityRef := \<lparr>x_of = Fin 2, y_of = Fin (- 1)\<rparr>\<rparr>))))
          (x_of (rotVelocityRef ((animate frontOfCamera ^^ Suc 5)
             (scatteredApp\<lparr>rotVelocityRef := \<lparr>x_of = Fin 2, y_of = Fin (- 1)\<rparr>\<rparr>)))) \<and>
   stateRef demoApp \<noteq> SCATTER \<and>
   rotVelocityRef (animate frontOfCamera demoApp) = rotVelocityRef demoApp"
proof -
  let ?s = "scatteredApp\<lparr>rotVelocityRef := \<lparr>x_of = Fin 2, y_of = Fin (- 1)\<rparr>\<rparr>"
  have 1: "ready ?s" and 2: "stateRef ?s = SCATTER" and 3: "\<not> isHandPresentRef ?s"
    and 4: "rotVelocityRef ?s = \<lparr>x_of = Fin 2, y_of = Fin (- 1)\<rparr>"
    and 5: "ready demoApp" and 6: "stateRef demoApp \<noteq> SCATTER"
    by (simp_all add: scatteredApp_def ready_def demoApp_fields demoApp_def initThree_def
          initialApp_def)
  note T = momentum_damping [OF 1, where front = frontOfCamera and k = 5 and a = 2 and b = "- 1"
                                and hx = 0 and hy = 0]
  from T 2 3
  have a: "rotVelocityRef (animate frontOfCamera ?s) =
          \<lparr>x_of = x_of (rotVelocityRef ?s) * Fin 0.95, y_of = y_of (rotVelocityRef ?s) * Fin 0.95\<rparr>"
    by blast
  from T 2 3 4
  have b: "decays (x_of (rotVelocityRef ((animate frontOfCamera ^^ 5) ?s)))
                  (x_of (rotVelocityRef ((animate frontOfCamera ^^ Suc 5) ?s)))"
    by blast
  from momentum_damping [OF 5, where front = frontOfCamera] 6
  have c: "rotVelocityRef (animate frontOfCamera demoApp) = rotVelocityRef demoApp" by blast
  have a': "rotVelocityRef (animate frontOfCamera ?s) = \<lparr>x_of = Fin 1.9, y_of = Fin (- 0.95)\<rparr>"
    unfolding a 4 by simp
  show ?thesis
    by (intro conjI 1 2 3 a' b 6 c)
qed

text \<open>In \<open>TREE\<close> and in \<open>ZOOM\<close> a frame leaves the angular velocity \<open>(1, 1)\<close> as it is.\<close>

theorem momentum_damping_counterexample:
  "ready (demoApp\<lparr>rotVelocityRef := \<lparr>x_of = Fin 1, y_of = Fin 1\<rparr>\<rparr>) \<and>
   stateRef (demoApp\<lparr>rotVelocityRef := \<lparr>x_of = Fin 1, y_of = Fin 1\<rparr>\<rparr>) = TREE \<and>
   rotVelocityRef (animate frontOfCamera (demoApp\<lparr>rotVelocityRef := \<lparr>x_of = Fin 1, y_of = Fin 1\<rparr>\<rparr>))
     = \<lparr>x_of = Fin 1, y_of = Fin 1\<rparr> \<and>
   ready (demoApp\<lparr>stateRef := ZOOM, rotVelocityRef := \<lparr>x_of = Fin 1, y_of = Fin 1\<rparr>\<rparr>) \<and>
   rotVelocityRef (animate frontOfCamera
       (demoApp\<lparr>stateRef := ZOOM, rotVelocityRef := \<lparr>x_of = Fin 1, y_of = Fin 1\<rparr>\<rparr>))
     = \<lparr>x_of = Fin 1, y_of = Fin 1\<rparr> \<and>
   \<lparr>x_of = Fin 1, y_of = Fin 1\<rparr> \<noteq> \<lparr>x_of = Fin 1 * Fin 0.95, y_of = Fin 1 * Fin 0.95\<rparr>"
  by (simp add: animate_momentum ready_def demoApp_fields stateManagement_def Let_def)

section \<open>Numbers that are not finite\<close>

lemma hasNaN_lerp: "hasNaN this \<or> hasNaN v \<Longrightarrow> hasNaN (lerp this v alpha)"
  by (auto simp: hasNaN_def lerp_def)

lemma stateManagement_rotation:
  assumes "mainGroupRef s = Some g"
  shows "map_option rotation (mainGroupRef (stateManagement s)) =
     Some (if stateRef s = SCATTER then
             \<lparr>x_of = x_of (rotation g)
                      + (if isHandPresentRef s
                         then x_of (rotVelocityRef s)
                              + (y_of (handPosRef s) - y_of (lastHandPosRef s)) * Fin 0.2
                         else x_of (rotVelocityRef s)),
              y_of = y_of (rotation g)
                      + (if isHandPresentRef s
                         then y_of (rotVelocityRef s)
                              + (x_of (handPosRef s) - x_of (lastHandPosRef s)) * Fin 0.2
                         else y_of (rotVelocityRef s))\<rparr>
           else if stateRef s = TREE then
             \<lparr>x_of = x_of (rotation g) * Fin 0.95, y_of = y_of (rotation g) + Fin 0.002\<rparr>
           else rotation g)"
  using assms by (simp add: stateManagement_def Let_def)

lemma animate_rotation:
  assumes "ready s" and "mainGroupRef s = Some g"
  shows "\<exists>g'. mainGroupRef (animate front s) = Some g' \<and>
     rotation g' =
          (if stateRef s = SCATTER then
             \<lparr>x_of = x_of (rotation g)
                      + (if isHandPresentRef s
                         then x_of (rotVelocityRef s)
                              + (y_of (handPosRef s) - y_of (lastHandPosRef s)) * Fin 0.2
                         else x_of (rotVelocityRef s)),
              y_of = y_of (rotation g)
                      + (if isHandPresentRef s
                         then y_of (rotVelocityRef s)
                              + (x_of (handPosRef s) - x_of (lastHandPosRef s)) * Fin 0.2
                         else y_of (rotVelocityRef s))\<rparr>
           else if stateRef s = TREE then
             \<lparr>x_of = x_of (rotation g) * Fin 0.95, y_of = y_of (rotation g) + Fin 0.002\<rparr>
           else rotation g)"
  using animate_group [OF assms(1), of front] stateManagement_rotation [OF assms(2)]
  by (auto simp del: number_arith)

lemma animate_photo:
  assumes "ready s" and "idx < length (photoMeshesRef s)"
  shows "\<exists>g'. mainGroupRef (animate front s) = Some g' \<and>
           photoMeshesRef (animate front s) ! idx =
             updatePhoto front (stateRef s) (zoomTargetIndexRef s) (cameraRef s) g' idx
               (photoMeshesRef s ! idx)"
proof -
  let ?s3 = "updateDust (updateGroups (stateManagement (s\<lparr>timeRef := timeRef s + Fin 0.01\<rparr>)))"
  obtain g' where g': "mainGroupRef (animate front s) = Some g'"
    using animate_group [OF assms(1), of front] by auto
  then have g3: "mainGroupRef ?s3 = Some g'"
    using assms(1) by (simp add: animate_ready stage_keeps)
  have ph: "photoMeshesRef ?s3 = photoMeshesRef s" by (simp add: stage_keeps)
  have "photoMeshesRef (animate front s) = photoMeshesRef (updatePhotos front ?s3)"
    using assms(1) by (simp add: animate_ready stage_keeps)
  also have "\<dots> ! idx = updatePhoto front (stateRef s) (zoomTargetIndexRef s) (cameraRef s) g' idx
               (photoMeshesRef s ! idx)"
    using assms(2) g3 ph by (simp add: updatePhotos_def stage_keeps nth_enumerate_eq)
  finally show ?thesis using g' by simp
qed

lemma updatePhoto_position:
  "photo_position (updatePhoto front state z camera g idx mesh) =
     lerp (photo_position mesh)
       (case (if state = ZOOM \<and> int idx = z
              then (if camera then Some (front (rotation g)) else photo_scatterPos mesh)
              else (if state = TREE then photo_treePos mesh else photo_scatterPos mesh)) of
          None \<Rightarrow> \<lparr>vx = Fin 0, vy = Fin 0, vz = Fin 0\<rparr> | Some v \<Rightarrow> v)
       (Fin 0.1)"
  by (simp add: updatePhoto_def Let_def)

lemma updateItem_hasNaN:
  "hasNaN (currentPos item) \<Longrightarrow> hasNaN (currentPos (fst (updateItem state time i item)))"
  by (auto simp: updateItem_def Let_def hasNaN_def lerp_def)


lemma animate_star:
  assumes "ready s" and "star (logicDataRef s) = Some st"
  shows "star (logicDataRef (animate front s)) =
           Some (st\<lparr>star_position :=
                      lerp (star_position st)
                        (if stateRef s = TREE then star_treePos st else star_scatterPos st)
                        (Fin 0.05),
                    star_rotation_y := star_rotation_y st + Fin 0.02\<rparr>)"
proof -
  let ?s4 = "updatePhotos front (updateDust (updateGroups (stateManagement
               (s\<lparr>timeRef := timeRef s + Fin 0.01\<rparr>))))"
  have "star (logicDataRef ?s4) = Some st" using assms(2) by (simp add: stage_keeps)
  moreover have "stateRef ?s4 = stateRef s" by (simp add: stage_keeps)
  ultimately show ?thesis using assms(1) by (simp add: animate_ready updateStar_def Let_def)
qed

text \<open>
  C8, as the code has it, for a frame that runs. No step of the frame loop tests a target
  or a position for finiteness: every frame blends every position toward its target as
  computed, and the only test, on a photo, replaces a missing target position by the
  origin. So NaN spreads and stays. A NaN angle of the group's rotation is NaN after the
  frame in every Mode. In \<open>SCATTER\<close> with a hand present, a NaN coordinate of the hand
  position makes the matching component of the angular velocity and of the rotation NaN,
  and a NaN component of the angular velocity stays NaN. A photo, an instance or the star
  whose position has a NaN component has one after the frame too, and the photo selected
  in \<open>ZOOM\<close> gets one as soon as its target in front of the camera has one.
\<close>

theorem nan_propagates:
  assumes "ready s" and "mainGroupRef s = Some g"
  shows "(\<exists>g'. mainGroupRef (animate front s) = Some g' \<and>
            (x_of (rotation g) = NaN \<longrightarrow> x_of (rotation g') = NaN) \<and>
            (y_of (rotation g) = NaN \<longrightarrow> y_of (rotation g') = NaN) \<and>
            (stateRef s = SCATTER \<and> isHandPresentRef s \<and> x_of (handPosRef s) = NaN \<longrightarrow>
               y_of (rotation g') = NaN \<and> y_of (rotVelocityRef (animate front s)) = NaN) \<and>
            (stateRef s = SCATTER \<and> isHandPresentRef s \<and> y_of (handPosRef s) = NaN \<longrightarrow>
               x_of (rotation g') = NaN \<and> x_of (rotVelocityRef (animate front s)) = NaN)) \<and>
         (stateRef s = SCATTER \<and> x_of (rotVelocityRef s) = NaN \<longrightarrow>
            x_of (rotVelocityRef (animate front s)) = NaN) \<and>
         (stateRef s = SCATTER \<and> y_of (rotVelocityRef s) = NaN \<longrightarrow>
            y_of (rotVelocityRef (animate front s)) = NaN) \<and>
         (idx < length (photoMeshesRef s) \<longrightarrow>
            (hasNaN (photo_position (photoMeshesRef s ! idx)) \<longrightarrow>
               hasNaN (photo_position (photoMeshesRef (animate front s) ! idx))) \<and>
            (stateRef s = ZOOM \<and> int idx = zoomTargetIndexRef s \<and> cameraRef s \<and>
             hasNaN (front (rotation g)) \<longrightarrow>
               hasNaN (photo_position (photoMeshesRef (animate front s) ! idx))) \<and>
            (photo_treePos (photoMeshesRef s ! idx) = None \<and> stateRef s = TREE \<longrightarrow>
               photo_position (photoMeshesRef (animate front s) ! idx) =
                 lerp (photo_position (photoMeshesRef s ! idx))
                   \<lparr>vx = Fin 0, vy = Fin 0, vz = Fin 0\<rparr> (Fin 0.1))) \<and>
         (n < 4 \<and> at_index (children g) n = Some (InstancedMesh ms) \<and>
          i < length (dataOf n (logicDataRef s)) \<and>
          hasNaN (currentPos (dataOf n (logicDataRef s) ! i)) \<longrightarrow>
            hasNaN (currentPos (dataOf n (logicDataRef (animate front s)) ! i))) \<and>
         (star (logicDataRef s) = Some st \<and> hasNaN (star_position st) \<longrightarrow>
            (\<exists>st'. star (logicDataRef (animate front s)) = Some st' \<and> hasNaN (star_position st')))"
proof -
  obtain g' where g': "mainGroupRef (animate front s) = Some g'"
     and rot: "rotation g' =
          (if stateRef s = SCATTER then
             \<lparr>x_of = x_of (rotation g)
                      + (if isHandPresentRef s
                         then x_of (rotVelocityRef s)
                              + (y_of (handPosRef s) - y_of (lastHandPosRef s)) * Fin 0.2
                         else x_of (rotVelocityRef s)),
              y_of = y_of (rotation g)
                      + (if isHandPresentRef s
                         then y_of (rotVelocityRef s)
                              + (x_of (handPosRef s) - x_of (lastHandPosRef s)) * Fin 0.2
                         else y_of (rotVelocityRef s))\<rparr>
           else if stateRef s = TREE then
             \<lparr>x_of = x_of (rotation g) * Fin 0.95, y_of = y_of (rotation g) + Fin 0.002\<rparr>
           else rotation g)"
    using animate_rotation [OF assms, of front] by blast
  have vel: "rotVelocityRef (animate front s) = rotVelocityRef (stateManagement s)"
    using assms(1) by (simp add: animate_momentum)
  note sv = stateManagement_velocity(1) [OF assms(2)]
  have A: "(x_of (rotation g) = NaN \<longrightarrow> x_of (rotation g') = NaN) \<and>
           (y_of (rotation g) = NaN \<longrightarrow> y_of (rotation g') = NaN)"
    unfolding rot by simp
  have B1: "stateRef s = SCATTER \<and> isHandPresentRef s \<and> x_of (handPosRef s) = NaN \<longrightarrow>
               y_of (rotation g') = NaN \<and> y_of (rotVelocityRef (animate front s)) = NaN"
    unfolding rot vel sv by simp
  have B2: "stateRef s = SCATTER \<and> isHandPresentRef s \<and> y_of (handPosRef s) = NaN \<longrightarrow>
               x_of (rotation g') = NaN \<and> x_of (rotVelocityRef (animate front s)) = NaN"
    unfolding rot vel sv by simp
  have C: "(stateRef s = SCATTER \<and> x_of (rotVelocityRef s) = NaN \<longrightarrow>
            x_of (rotVelocityRef (animate front s)) = NaN) \<and>
         (stateRef s = SCATTER \<and> y_of (rotVelocityRef s) = NaN \<longrightarrow>
            y_of (rotVelocityRef (animate front s)) = NaN)"
    unfolding vel sv by simp
  have D: "(hasNaN (photo_position (photoMeshesRef s ! idx)) \<longrightarrow>
               hasNaN (photo_position (photoMeshesRef (animate front s) ! idx))) \<and>
            (stateRef s = ZOOM \<and> int idx = zoomTargetIndexRef s \<and> cameraRef s \<and>
             hasNaN (front (rotation g)) \<longrightarrow>
               hasNaN (photo_position (photoMeshesRef (animate front s) ! idx))) \<and>
            (photo_treePos (photoMeshesRef s ! idx) = None \<and> stateRef s = TREE \<longrightarrow>
               photo_position (photoMeshesRef (animate front s) ! idx) =
                 lerp (photo_position (photoMeshesRef s ! idx))
                   \<lparr>vx = Fin 0, vy = Fin 0, vz = Fin 0\<rparr> (Fin 0.1))"
    if inr: "idx < length (photoMeshesRef s)"
  proof -
    obtain g2 where g2: "mainGroupRef (animate front s) = Some g2"
      "photoMeshesRef (animate front s) ! idx =
             updatePhoto front (stateRef s) (zoomTargetIndexRef s) (cameraRef s) g2 idx
               (photoMeshesRef s ! idx)"
      using animate_photo [OF assms(1) inr, of front] by blast
    have "g2 = g'" using g2(1) g' by simp
    moreover have "stateRef s = ZOOM \<Longrightarrow> rotation g' = rotation g" unfolding rot by simp
    ultimately show ?thesis
      unfolding g2(2) updatePhoto_position
      by (auto intro!: hasNaN_lerp)
  qed
  have E: "n < 4 \<and> at_index (children g) n = Some (InstancedMesh ms) \<and>
          i < length (dataOf n (logicDataRef s)) \<and>
          hasNaN (currentPos (dataOf n (logicDataRef s) ! i)) \<longrightarrow>
            hasNaN (currentPos (dataOf n (logicDataRef (animate front s)) ! i))"
  proof (intro impI, elim conjE)
    assume h: "n < 4" "at_index (children g) n = Some (InstancedMesh ms)"
      "i < length (dataOf n (logicDataRef s))" "hasNaN (currentPos (dataOf n (logicDataRef s) ! i))"
    show "hasNaN (currentPos (dataOf n (logicDataRef (animate front s)) ! i))"
      using animate_data [OF assms h(2,1), of front] h(3,4) by (simp add: updateItem_hasNaN)
  qed
  have F: "star (logicDataRef s) = Some st \<and> hasNaN (star_position st) \<longrightarrow>
            (\<exists>st'. star (logicDataRef (animate front s)) = Some st' \<and> hasNaN (star_position st'))"
    using animate_star [OF assms(1), of st front] by (auto intro!: hasNaN_lerp)
  have G: "\<exists>g'. mainGroupRef (animate front s) = Some g' \<and>
            (x_of (rotation g) = NaN \<longrightarrow> x_of (rotation g') = NaN) \<and>
            (y_of (rotation g) = NaN \<longrightarrow> y_of (rotation g') = NaN) \<and>
            (stateRef s = SCATTER \<and> isHandPresentRef s \<and> x_of (handPosRef s) = NaN \<longrightarrow>
               y_of (rotation g') = NaN \<and> y_of (rotVelocityRef (animate front s)) = NaN) \<and>
            (stateRef s = SCATTER \<and> isHandPresentRef s \<and> y_of (handPosRef s) = NaN \<longrightarrow>
               x_of (rotation g') = NaN \<and> x_of (rotVelocityRef (animate front s)) = NaN)"
    by (rule exI [of _ g']) (intro conjI g' A [THEN conjunct1] A [THEN conjunct2] B1 B2)
  have D': "idx < length (photoMeshesRef s) \<longrightarrow>
            (hasNaN (photo_position (photoMeshesRef s ! idx)) \<longrightarrow>
               hasNaN (photo_position (photoMeshesRef (animate front s) ! idx))) \<and>
            (stateRef s = ZOOM \<and> int idx = zoomTargetIndexRef s \<and> cameraRef s \<and>
             hasNaN (front (rotation g)) \<longrightarrow>
               hasNaN (photo_position (photoMeshesRef (animate front s) ! idx))) \<and>
            (photo_treePos (photoMeshesRef s ! idx) = None \<and> stateRef s = TREE \<longrightarrow>
               photo_position (photoMeshesRef (animate front s) ! idx) =
                 lerp (photo_position (photoMeshesRef s ! idx))
                   \<lparr>vx = Fin 0, vy = Fin 0, vz = Fin 0\<rparr> (Fin 0.1))"
    by (rule impI) (rule D)
  show ?thesis
    by (intro conjI G C [THEN conjunct1] C [THEN conjunct2] D' E F)
qed

lemma nanHand_facts:
  "at_index nanHand 9 = Some \<lparr>lm_x = NaN, lm_y = NaN\<rparr>"
  "isFist nanHand = Some False" "isPinch nanHand = Some False"
  by (simp_all add: nanHand_def openHand_def hand_simps sqrt_less_const)

lemma scene_facts:
  "ready scatteredApp" "ready nanApp" "ready nanZoomApp"
  "mainGroupRef scatteredApp = Some demoGroup" "mainGroupRef nanApp = Some demoGroup"
  "mainGroupRef nanZoomApp = Some (demoGroup\<lparr>rotation := \<lparr>x_of = NaN, y_of = NaN\<rparr>\<rparr>)"
  "stateRef scatteredApp = SCATTER" "stateRef nanApp = SCATTER" "stateRef nanZoomApp = ZOOM"
  "rendererRef scatteredApp" "cameraRef nanZoomApp" "zoomTargetIndexRef nanZoomApp = 0"
  "photoMeshesRef nanZoomApp = [demoPhoto]"
  "isHandPresentRef nanApp" "handPosRef nanApp = \<lparr>x_of = NaN, y_of = NaN\<rparr>"
  "rotVelocityRef nanApp = \<lparr>x_of = Fin 0, y_of = Fin 0\<rparr>"
  by (simp_all add: nanApp_def scatteredApp_def nanZoomApp_def ready_def demoApp_fields
        demoApp_def initThree_def initialApp_def)

theorem nan_propagates_witness:
  "ready nanZoomApp \<and>
   mainGroupRef nanZoomApp = Some (demoGroup\<lparr>rotation := \<lparr>x_of = NaN, y_of = NaN\<rparr>\<rparr>) \<and>
   stateRef nanZoomApp = ZOOM \<and> int 0 = zoomTargetIndexRef nanZoomApp \<and> cameraRef nanZoomApp \<and>
   0 < length (photoMeshesRef nanZoomApp) \<and>
   hasNaN (frontOfCamera (rotation (demoGroup\<lparr>rotation := \<lparr>x_of = NaN, y_of = NaN\<rparr>\<rparr>))) \<and>
   hasNaN (photo_position (photoMeshesRef (animate frontOfCamera nanZoomApp) ! 0)) \<and>
   ready nanApp \<and> mainGroupRef nanApp = Some demoGroup \<and>
   stateRef nanApp = SCATTER \<and> isHandPresentRef nanApp \<and> x_of (handPosRef nanApp) = NaN \<and>
   y_of (rotVelocityRef (animate frontOfCamera nanApp)) = NaN"
proof -
  have h: "hasNaN (frontOfCamera (rotation (demoGroup\<lparr>rotation := \<lparr>x_of = NaN, y_of = NaN\<rparr>\<rparr>)))"
    by (simp add: hasNaN_def frontOfCamera_def Math_sin_def)
  from nan_propagates [OF scene_facts(3) scene_facts(6), where front = frontOfCamera and idx = 0
                         and n = 0 and i = 0 and ms = "[]" and st = "\<lparr>star_treePos = vec 0 0 0,
                           star_scatterPos = vec 0 0 0, star_position = vec 0 0 0,
                           star_rotation_y = Fin 0\<rparr>"]
    h scene_facts(9,11,12,13)
  have 1: "hasNaN (photo_position (photoMeshesRef (animate frontOfCamera nanZoomApp) ! 0))"
    by simp
  from nan_propagates [OF scene_facts(2) scene_facts(5), where front = frontOfCamera and idx = 0
                         and n = 0 and i = 0 and ms = "[]" and st = "\<lparr>star_treePos = vec 0 0 0,
                           star_scatterPos = vec 0 0 0, star_position = vec 0 0 0,
                           star_rotation_y = Fin 0\<rparr>"]
    scene_facts(8,14,15)
  have 2: "y_of (rotVelocityRef (animate frontOfCamera nanApp)) = NaN"
    by auto
  show ?thesis using 1 2 h scene_facts by simp
qed

text \<open>
  A hand whose palm landmark is NaN, detected in \<open>SCATTER\<close>, turns the rotation of the group
  from \<open>(0, 0)\<close> to NaN in the next frame, and it is NaN in the frame after; with such a
  rotation the photo selected in \<open>ZOOM\<close> goes from \<open>(20, 0, 0)\<close> to NaN in one frame.
\<close>

theorem nan_propagates_counterexample:
  "predictWebcam (Some [nanHand]) scatteredApp = Some nanApp \<and>
   map_option rotation (mainGroupRef scatteredApp) = Some \<lparr>x_of = Fin 0, y_of = Fin 0\<rparr> \<and>
   map_option rotation (mainGroupRef (animate frontOfCamera nanApp)) =
     Some \<lparr>x_of = NaN, y_of = NaN\<rparr> \<and>
   map_option rotation (mainGroupRef (animate frontOfCamera (animate frontOfCamera nanApp))) =
     Some \<lparr>x_of = NaN, y_of = NaN\<rparr> \<and>
   photo_position (photoMeshesRef nanZoomApp ! 0) = vec 20 0 0 \<and>
   photo_position (photoMeshesRef (animate frontOfCamera nanZoomApp) ! 0) =
     \<lparr>vx = NaN, vy = NaN, vz = NaN\<rparr>"
proof -
  have 1: "predictWebcam (Some [nanHand]) scatteredApp = Some nanApp"
    by (simp add: predictWebcam_def handleGesture_def nanHand_facts scene_facts Let_def nanApp_def)
  have 2: "map_option rotation (mainGroupRef scatteredApp) = Some \<lparr>x_of = Fin 0, y_of = Fin 0\<rparr>"
    by (simp add: scene_facts demoGroup_def)
  obtain g1 where g1: "mainGroupRef (animate frontOfCamera nanApp) = Some g1"
      "rotation g1 = \<lparr>x_of = NaN, y_of = NaN\<rparr>"
    using animate_rotation [OF scene_facts(2) scene_facts(5), of frontOfCamera]
    by (auto simp: scene_facts)
  have r1: "ready (animate frontOfCamera nanApp)"
    by (simp add: animate_ready_iff scene_facts)
  obtain g2 where g2: "mainGroupRef (animate frontOfCamera (animate frontOfCamera nanApp)) = Some g2"
      "rotation g2 = \<lparr>x_of = NaN, y_of = NaN\<rparr>"
    using animate_rotation [OF r1 g1(1), of frontOfCamera] g1(2)
    by (auto simp: animate_keeps scene_facts)
  obtain g3 where g3: "mainGroupRef (animate frontOfCamera nanZoomApp) = Some g3"
      "rotation g3 = \<lparr>x_of = NaN, y_of = NaN\<rparr>"
    using animate_rotation [OF scene_facts(3) scene_facts(6), of frontOfCamera]
    by (auto simp: scene_facts)
  obtain g4 where g4: "mainGroupRef (animate frontOfCamera nanZoomApp) = Some g4"
      "photoMeshesRef (animate frontOfCamera nanZoomApp) ! 0 =
         updatePhoto frontOfCamera ZOOM 0 True g4 0 demoPhoto"
    using animate_photo [OF scene_facts(3), of 0 frontOfCamera] by (auto simp: scene_facts)
  have "g4 = g3" using g3(1) g4(1) by simp
  then have 4: "photo_position (photoMeshesRef (animate frontOfCamera nanZoomApp) ! 0) =
     \<lparr>vx = NaN, vy = NaN, vz = NaN\<rparr>"
    unfolding g4(2) updatePhoto_position using g3(2)
    by (simp add: frontOfCamera_def Math_sin_def Math_cos_def lerp_def)
  have 3: "photo_position (photoMeshesRef nanZoomApp ! 0) = vec 20 0 0"
    by (simp add: scene_facts demoPhoto_def vec_def)
  show ?thesis using 1 2 g1 g2 3 4 by simp
qed

section \<open>The blend toward a target at rest\<close>

lemma le_simps [simp]: "le (Fin a) (Fin b) = (a \<le> b)" "le NaN x = False" "le x NaN = False"
  by (simp_all add: le_def split: number.splits)















section \<open>The cursor in every reachable state\<close>

lemma handleGesture_Some:
  assumes "handleGesture landmarks s = Some s'"
  shows "\<exists>fist pinch. 9 < length landmarks \<and> isFist landmarks = Some fist \<and>
                       isPinch landmarks = Some pinch"
  using assms
  by (auto simp: handleGesture_def at_index_def Let_def split: option.splits if_splits)

lemma selectClosestPhoto_cursor:
  assumes "photoMeshesRef s \<noteq> []"
    and "zoomTargetIndexRef s = - 1 \<or>
         (0 \<le> zoomTargetIndexRef s \<and> zoomTargetIndexRef s < int (length (photoMeshesRef s)))"
  shows "0 \<le> zoomTargetIndexRef (selectClosestPhoto s) \<and>
         zoomTargetIndexRef (selectClosestPhoto s) < int (length (photoMeshesRef s)) \<and>
         photoMeshesRef (selectClosestPhoto s) = photoMeshesRef s \<and>
         stateRef (selectClosestPhoto s) = stateRef s"
proof (cases "zoomTargetIndexRef s = - 1")
  case True
  then show ?thesis using assms(1) by (simp add: selectClosestPhoto_def)
next
  case False
  then have z: "0 \<le> zoomTargetIndexRef s" using assms(2) by auto
  have M: "0 < int (length (photoMeshesRef s))" using assms(1) by simp
  have "(zoomTargetIndexRef s + 1) smod int (length (photoMeshesRef s)) =
          (zoomTargetIndexRef s + 1) mod int (length (photoMeshesRef s))"
    using z M by (intro smod_nonneg) simp_all
  moreover have "0 \<le> (zoomTargetIndexRef s + 1) mod int (length (photoMeshesRef s))"
    using M by simp
  moreover have "(zoomTargetIndexRef s + 1) mod int (length (photoMeshesRef s))
                   < int (length (photoMeshesRef s))"
    using M by simp
  ultimately show ?thesis using False assms(1) by (simp add: selectClosestPhoto_def)
qed

lemma cursorOk_handleGesture:
  assumes "cursorOk s" and "handleGesture landmarks s = Some s'"
  shows "cursorOk s'"
proof -
  obtain fist pinch where h: "9 < length landmarks" "isFist landmarks = Some fist"
      "isPinch landmarks = Some pinch"
    using handleGesture_Some [OF assms(2)] by blast
  let ?s1 = "s\<lparr>handPosRef := \<lparr>x_of = lm_x (landmarks ! 9), y_of = lm_y (landmarks ! 9)\<rparr>\<rparr>"
  have c1: "zoomTargetIndexRef ?s1 = - 1 \<or>
         (0 \<le> zoomTargetIndexRef ?s1 \<and> zoomTargetIndexRef ?s1 < int (length (photoMeshesRef ?s1)))"
    using assms(1) by (simp add: cursorOk_def)
  have sel: "photoMeshesRef s \<noteq> [] \<Longrightarrow>
         0 \<le> zoomTargetIndexRef (selectClosestPhoto ?s1) \<and>
         zoomTargetIndexRef (selectClosestPhoto ?s1) < int (length (photoMeshesRef s)) \<and>
         photoMeshesRef (selectClosestPhoto ?s1) = photoMeshesRef s \<and>
         stateRef (selectClosestPhoto ?s1) = stateRef s"
    using selectClosestPhoto_cursor [of ?s1] c1 by simp
  have "s' = (if pinch then
             (if stateRef s = SCATTER \<and> photoMeshesRef s \<noteq> []
              then (selectClosestPhoto ?s1)
                     \<lparr>currentState := ZOOM, statusText := ''Grabbing Photo'',
                      statusColor := ''#ffd700''\<rparr>
              else ?s1)
           else if fist then
             ?s1\<lparr>currentState := TREE, statusText := ''Aggregated Form'', statusColor := ''#00ffaa''\<rparr>
           else if stateRef s = TREE \<or> stateRef s = ZOOM then
             ?s1\<lparr>currentState := SCATTER, statusText := ''Nebula Scattered (Wave to Rotate)'',
               statusColor := ''#ffffff'',
               lastHandPosRef := \<lparr>x_of = lm_x (landmarks ! 9), y_of = lm_y (landmarks ! 9)\<rparr>\<rparr>
           else ?s1)"
    using handleGesture_eq [OF h, of s] assms(2) by simp
  then show ?thesis
    using assms(1) sel by (auto simp: cursorOk_def split: if_splits)
qed

lemma cursorOk_predictWebcam:
  assumes "cursorOk s" and "predictWebcam r s = Some s'"
  shows "cursorOk s'"
proof (cases "rendererRef s")
  case False
  then show ?thesis using assms by (simp add: predictWebcam_def)
next
  case True
  show ?thesis
  proof (cases r)
    case None
    then show ?thesis using assms True by (auto simp: predictWebcam_def cursorOk_def)
  next
    case (Some hands)
    show ?thesis
    proof (cases hands)
      case Nil
      then show ?thesis using assms True Some by (auto simp: predictWebcam_def cursorOk_def)
    next
      case (Cons marks rest)
      have "cursorOk (s\<lparr>isHandPresentRef := True\<rparr>)" using assms(1) by (simp add: cursorOk_def)
      moreover have "handleGesture marks (s\<lparr>isHandPresentRef := True\<rparr>) = Some s'"
        using assms(2) True Some Cons by (simp add: predictWebcam_def)
      ultimately show ?thesis by (rule cursorOk_handleGesture)
    qed
  qed
qed

lemma cursorOk_addPhoto: "cursorOk s \<Longrightarrow> cursorOk (addPhoto img rnd s)"
  by (auto simp: cursorOk_def addPhoto_def Let_def split: option.splits)

lemma cursorOk_animate: "cursorOk s \<Longrightarrow> cursorOk (animate front s)"
  by (simp add: cursorOk_def animate_keeps)

lemma reachable_cursorOk: "reachable s \<Longrightarrow> cursorOk s"
proof (induction rule: reachable.induct)
  case start
  show ?case by (simp add: cursorOk_def initialApp_def)
next
  case (mount s mainGroup logicData)
  then show ?case by (simp add: cursorOk_def initThree_def)
next
  case (effect s)
  then show ?case by (auto simp: cursorOk_def syncState_def)
next
  case (detection s result_landmarks s')
  then show ?case using cursorOk_predictWebcam by blast
next
  case (upload s img rnd)
  then show ?case by (simp add: cursorOk_addPhoto)
next
  case (frame s front)
  then show ?case by (simp add: cursorOk_animate)
qed

text \<open>
  C6: in every reachable state in which the Mode is \<open>ZOOM\<close> (the React state or its copy in
  \<^verbatim>\<open>stateRef\<close>), the cursor is an index of a photo: at least 0 and less than the number
  of photos, which is therefore not 0. The proof is by induction over the steps that
  reach a state (mounting, the effect, a detection result with its gesture, an upload, a
  frame): each of them preserves the invariant \<open>cursorOk\<close>, and none removes a photo.
\<close>

theorem cursor_valid_in_zoom:
  assumes "reachable s" and "currentState s = ZOOM \<or> stateRef s = ZOOM"
  shows "0 \<le> zoomTargetIndexRef s \<and> zoomTargetIndexRef s < int (length (photoMeshesRef s))"
  using reachable_cursorOk [OF assms(1)] assms(2) by (auto simp: cursorOk_def)


theorem cursor_valid_in_zoom_witness:
  "(case zoomedApp of None \<Rightarrow> False
    | Some s \<Rightarrow> reachable s \<and> currentState s = ZOOM \<and> 0 \<le> zoomTargetIndexRef s \<and>
                zoomTargetIndexRef s < int (length (photoMeshesRef s)))"
proof -
  let ?p = "addPhoto demoImage demoDraws demoApp"
  note pf = addPhoto_fields [of demoApp demoGroup demoImage demoDraws, OF demoApp_fields(7)]
  have rp: "reachable ?p"
    unfolding demoApp_def by (intro reachable.upload reachable.mount reachable.start)
  have ne: "photoMeshesRef ?p \<noteq> []" using pf(4) by auto
  let ?s3 = "?p\<lparr>isHandPresentRef := True,
               handPosRef := \<lparr>x_of = lm_x (openHand ! 9), y_of = lm_y (openHand ! 9)\<rparr>,
               currentState := SCATTER, statusText := ''Nebula Scattered (Wave to Rotate)'',
               statusColor := ''#ffffff'',
               lastHandPosRef := \<lparr>x_of = lm_x (openHand ! 9), y_of = lm_y (openHand ! 9)\<rparr>\<rparr>"
  have s3: "predictWebcam (Some [openHand]) ?p = Some ?s3"
    using handleGesture_eq [of openHand False False "?p\<lparr>isHandPresentRef := True\<rparr>"]
    by (simp add: predictWebcam_def pf demoApp_fields openHand_facts)
  let ?s4 = "syncState ?s3"
  let ?s5 = "(selectClosestPhoto
               (?s4\<lparr>isHandPresentRef := True,
                    handPosRef := \<lparr>x_of = lm_x (pinchHand ! 9), y_of = lm_y (pinchHand ! 9)\<rparr>\<rparr>))
              \<lparr>currentState := ZOOM, statusText := ''Grabbing Photo'', statusColor := ''#ffd700''\<rparr>"
  have s5: "predictWebcam (Some [pinchHand]) ?s4 = Some ?s5"
    using handleGesture_eq [of pinchHand False True "?s4\<lparr>isHandPresentRef := True\<rparr>"] ne
    by (simp add: predictWebcam_def syncState_def pf demoApp_fields pinchHand_facts)
  have z: "zoomedApp = Some ?s5" by (simp add: zoomedApp_def s3 s5)
  have r5: "reachable ?s5"
    by (rule reachable.detection [OF reachable.effect [OF reachable.detection [OF rp s3]] s5])
  have c5: "currentState ?s5 = ZOOM" by simp
  from cursor_valid_in_zoom [OF r5] c5
  have "0 \<le> zoomTargetIndexRef ?s5 \<and> zoomTargetIndexRef ?s5 < int (length (photoMeshesRef ?s5))"
    by blast
  then show ?thesis unfolding z using r5 c5 by simp
qed

end
